theory Spec2Isabelle
  imports Main
begin

section \<open>Data model\<close>

text \<open>
  The authentication subsystem of the backend: \<^verbatim>\<open>AuthService\<close> (services/auth.service.ts),
  the \<^verbatim>\<open>OTPCode\<close> and \<^verbatim>\<open>TokenBlacklist\<close> models and the \<^verbatim>\<open>authenticate\<close>
  middleware. The three collections are lists of documents in insertion order; every
  operation takes the database and the clock reading \<open>now\<close> (milliseconds, as
  \<^verbatim>\<open>Date.now()\<close>) and returns its result with the new database. Calls run one after
  the other, and the database driver answers every call: its errors, which the methods
  catch, are not part of the model. The users in the database are valid documents of
  the \<^verbatim>\<open>User\<close> schema, so that saving one succeeds.
\<close>

text \<open>A time is the time value of a \<^verbatim>\<open>Date\<close>, in milliseconds since the epoch. A
  \<^verbatim>\<open>Date\<close> is valid within 8.64e15 milliseconds of the epoch; beyond that
  \<^verbatim>\<open>new Date(ms)\<close> is an Invalid Date, which no schema accepts for a \<^verbatim>\<open>Date\<close> path.\<close>

type_synonym timestamp = int
type_synonym object_id = string

definition validDate :: "timestamp \<Rightarrow> bool" where
  "validDate ms = (- 8640000000000000 \<le> ms \<and> ms \<le> 8640000000000000)"

datatype role = admin | citizen
datatype status = active | inactive

text \<open>\<^verbatim>\<open>IUser\<close>, restricted to the fields the authentication code reads or writes.\<close>

record user =
  u_id :: object_id
  u_email :: string
  u_role :: role
  u_status :: status
  u_lastLogin :: "timestamp option"
  u_emailVerified :: bool

text \<open>\<^verbatim>\<open>IOTPCode\<close>: \<open>verified\<close> is the consumed flag.\<close>

record otp_code =
  otp_email :: string
  otp_code :: string
  otp_expiresAt :: timestamp
  otp_verified :: bool
  otp_createdAt :: timestamp

subsection \<open>JSON web tokens\<close>

text \<open>
  The payload of a token as \<^verbatim>\<open>jwt.decode\<close> returns it. Every claim is optional: a token
  presented to the service need not have been minted by it. The \<^verbatim>\<open>userId\<close> of a payload
  is a value that Mongoose casts to the id of a document, or one that it cannot cast.
  The numeric claims \<^verbatim>\<open>iat\<close> and \<^verbatim>\<open>exp\<close> are integers, of either sign and of any
  size; a payload whose \<^verbatim>\<open>exp\<close> is not a number is outside the model.
\<close>

datatype id_value = ObjectId object_id | Uncastable string

record claims =
  c_userId :: "id_value option"
  c_email :: "string option"
  c_role :: "role option"
  c_type :: "string option"
  c_iat :: "int option"
  c_exp :: "int option"

text \<open>
  The \<^verbatim>\<open>jsonwebtoken\<close> library is not part of the repository. It is modelled
  symbolically: a signature is the pair of the secret and the payload it was computed
  over, so that a signature verifies under a secret exactly when it was made with that
  secret over that payload. A token string is either a well-formed JWT (payload and
  signature part) or a string that \<^verbatim>\<open>jwt.decode\<close> cannot parse.
\<close>

datatype signature = HS256 string claims

datatype token = Jwt claims signature | Malformed string

datatype jwt_error = JsonWebTokenError | TokenExpiredError

text \<open>\<^verbatim>\<open>jwt.sign(payload, secret, {expiresIn})\<close>: \<open>iat\<close> is the clock in seconds,
  \<open>exp = iat + expiresIn\<close> (the lifetime in seconds).\<close>

definition jwt_sign :: "claims \<Rightarrow> string \<Rightarrow> int \<Rightarrow> timestamp \<Rightarrow> token" where
  "jwt_sign payload secret expiresIn now =
     (let p = payload\<lparr>c_iat := Some (now div 1000), c_exp := Some (now div 1000 + expiresIn)\<rparr>
      in Jwt p (HS256 secret p))"

text \<open>\<^verbatim>\<open>jwt.decode(token)\<close>: the payload, with no check of signature or expiry;
  \<^verbatim>\<open>null\<close> for a string that is not a JWT.\<close>

fun jwt_decode :: "token \<Rightarrow> claims option" where
  "jwt_decode (Jwt p sg) = Some p"
| "jwt_decode (Malformed s) = None"

text \<open>\<^verbatim>\<open>jwt.verify(token, secret)\<close>: the signature is checked first, then the expiry
  (\<^verbatim>\<open>clockTimestamp >= payload.exp\<close> is expired), and the payload is returned.\<close>

fun jwt_verify :: "token \<Rightarrow> string \<Rightarrow> timestamp \<Rightarrow> jwt_error + claims" where
  "jwt_verify (Malformed s) secret now = Inl JsonWebTokenError"
| "jwt_verify (Jwt p sg) secret now =
     (if sg \<noteq> HS256 secret p then Inl JsonWebTokenError
      else (case c_exp p of
              None \<Rightarrow> Inr p
            | Some e \<Rightarrow> if now div 1000 \<ge> e then Inl TokenExpiredError else Inr p))"

record blacklist_entry =
  bl_token :: token
  bl_expiresAt :: timestamp
  bl_createdAt :: timestamp

record db =
  users :: "user list"
  otps :: "otp_code list"
  blacklist :: "blacklist_entry list"

text \<open>The fields of the \<^verbatim>\<open>AuthService\<close> instance; the lifetimes (\<^verbatim>\<open>'24h'\<close>,
  \<^verbatim>\<open>'7d'\<close> by default) are held in seconds.\<close>

record auth_config =
  jwtSecret :: string
  jwtRefreshSecret :: string
  jwtExpire :: int
  jwtRefreshExpire :: int

text \<open>\<^verbatim>\<open>IAuthResponse\<close>: it has one token field.\<close>

record auth_response =
  success :: bool
  token :: "token option"
  user :: "user option"
  message :: "string option"

text \<open>The \<^verbatim>\<open>{ success, message }\<close> object of \<^verbatim>\<open>sendOTPCode\<close> and \<^verbatim>\<open>logout\<close>.\<close>

record op_result =
  ok :: bool
  msg :: string

section \<open>Collections\<close>

definition findOne :: "('a \<Rightarrow> bool) \<Rightarrow> 'a list \<Rightarrow> 'a option" where
  "findOne P xs = List.find P xs"

definition deleteMany :: "('a \<Rightarrow> bool) \<Rightarrow> 'a list \<Rightarrow> 'a list" where
  "deleteMany P xs = filter (\<lambda>x. \<not> P x) xs"

text \<open>\<^verbatim>\<open>doc.save()\<close> on the document a \<^verbatim>\<open>findOne\<close> returned: the first document
  that matches the query is the one written back.\<close>

fun updateFirst :: "('a \<Rightarrow> bool) \<Rightarrow> ('a \<Rightarrow> 'a) \<Rightarrow> 'a list \<Rightarrow> 'a list" where
  "updateFirst P f [] = []"
| "updateFirst P f (x # xs) = (if P x then f x # xs else x # updateFirst P f xs)"

subsection \<open>Strings\<close>

text \<open>Strings are sequences of ASCII characters, on which \<^verbatim>\<open>toLowerCase\<close> maps the
  letters A to Z and \<^verbatim>\<open>trim\<close> strips tab, line feed, vertical tab, form feed, carriage
  return and space from both ends; other characters are outside the model.\<close>

definition toLowerChar :: "char \<Rightarrow> char" where
  "toLowerChar c =
     (let n = (of_char c :: nat) in if 65 \<le> n \<and> n \<le> 90 then char_of (n + 32) else c)"

definition toLowerCase :: "string \<Rightarrow> string" where
  "toLowerCase s = map toLowerChar s"

definition isWhiteSpace :: "char \<Rightarrow> bool" where
  "isWhiteSpace c = ((of_char c :: nat) \<in> {9, 10, 11, 12, 13, 32})"

definition trim :: "string \<Rightarrow> string" where
  "trim s = rev (dropWhile isWhiteSpace (rev (dropWhile isWhiteSpace s)))"

text \<open>The \<^verbatim>\<open>lowercase: true, trim: true\<close> setters of the \<^verbatim>\<open>email\<close> path of the OTP
  schema. Mongoose runs them when a document is built and when a query filter is cast.\<close>

definition normalizeEmail :: "string \<Rightarrow> string" where
  "normalizeEmail e = trim (toLowerCase e)"

definition digitChar :: "nat \<Rightarrow> char" where
  "digitChar d = char_of (48 + d)"

function toString :: "nat \<Rightarrow> string" where
  "toString n = (if n < 10 then [digitChar n] else toString (n div 10) @ [digitChar (n mod 10)])"
  by pat_completeness auto
termination
  by (relation "measure id") auto

declare toString.simps [simp del]

text \<open>\<^verbatim>\<open>Math.floor(100000 + Math.random() * 900000).toString()\<close>; \<open>rnd\<close> stands for
  \<^verbatim>\<open>Math.floor(Math.random() * 900000)\<close>, a number below 900000.\<close>

definition generateCode :: "nat \<Rightarrow> string" where
  "generateCode rnd = toString (100000 + rnd)"

definition isDigit :: "char \<Rightarrow> bool" where
  "isDigit c = (48 \<le> (of_char c :: nat) \<and> (of_char c :: nat) \<le> 57)"

text \<open>The validators of the OTP schema that \<^verbatim>\<open>save()\<close> runs: \<^verbatim>\<open>email\<close> is required
  (not empty), \<^verbatim>\<open>code\<close> matches \<^verbatim>\<open>/^[0-9]{6}$/\<close> and \<^verbatim>\<open>expiresAt\<close> is a valid date.\<close>

definition validateOTP :: "otp_code \<Rightarrow> bool" where
  "validateOTP d = (otp_email d \<noteq> [] \<and> length (otp_code d) = 6 \<and> list_all isDigit (otp_code d)
                    \<and> validDate (otp_expiresAt d))"

section \<open>User directory\<close>

text \<open>
  \<^verbatim>\<open>User.findOne({ email: e })\<close>. The \<^verbatim>\<open>email\<close> path of the user schema has
  \<^verbatim>\<open>lowercase: true, trim: true\<close> as well, and Mongoose applies the setters to the
  filter: the user found is the first whose stored email is the normalized \<open>e\<close>. The
  service passes \<^verbatim>\<open>email.toLowerCase()\<close>, so a padded or upper-case email finds the user
  that its normalized form names.
\<close>

definition findUserByEmail :: "user list \<Rightarrow> string \<Rightarrow> user option" where
  "findUserByEmail us e = findOne (\<lambda>u. u_email u = normalizeEmail e) us"

text \<open>
  \<^verbatim>\<open>User.findById(id)\<close>: the first user with that id, nothing for \<^verbatim>\<open>undefined\<close>, and a
  \<^verbatim>\<open>CastError\<close> thrown (\<open>Inl\<close>) for a value that does not cast to an id.
\<close>

datatype cast_error = CastError

definition findById :: "user list \<Rightarrow> id_value option \<Rightarrow> cast_error + user option" where
  "findById us i =
     (case i of
        None \<Rightarrow> Inr None
      | Some (Uncastable s) \<Rightarrow> Inl CastError
      | Some (ObjectId k) \<Rightarrow> Inr (findOne (\<lambda>u. u_id u = k) us))"

text \<open>\<^verbatim>\<open>try { return await ... } catch (error) { return null }\<close>.\<close>

definition catchNull :: "cast_error + user option \<Rightarrow> user option" where
  "catchNull r = (case r of Inl e \<Rightarrow> None | Inr u \<Rightarrow> u)"

section \<open>Token issuer\<close>

definition generateAccessToken :: "auth_config \<Rightarrow> user \<Rightarrow> timestamp \<Rightarrow> token" where
  "generateAccessToken cfg u now =
     jwt_sign \<lparr>c_userId = Some (ObjectId (u_id u)), c_email = Some (u_email u),
               c_role = Some (u_role u), c_type = Some ''access'', c_iat = None, c_exp = None\<rparr>
       (jwtSecret cfg) (jwtExpire cfg) now"

definition generateRefreshToken :: "auth_config \<Rightarrow> user \<Rightarrow> timestamp \<Rightarrow> token" where
  "generateRefreshToken cfg u now =
     jwt_sign \<lparr>c_userId = Some (ObjectId (u_id u)), c_email = Some (u_email u), c_role = None,
               c_type = Some ''refresh'', c_iat = None, c_exp = None\<rparr>
       (jwtRefreshSecret cfg) (jwtRefreshExpire cfg) now"

text \<open>Both verifiers replace whatever \<^verbatim>\<open>jwt.verify\<close> throws by one error of their own.\<close>

definition verifyAccessToken :: "auth_config \<Rightarrow> token \<Rightarrow> timestamp \<Rightarrow> string + claims" where
  "verifyAccessToken cfg t now =
     (case jwt_verify t (jwtSecret cfg) now of
        Inl e \<Rightarrow> Inl ''Invalid or expired token''
      | Inr p \<Rightarrow> Inr p)"

definition verifyRefreshToken :: "auth_config \<Rightarrow> token \<Rightarrow> timestamp \<Rightarrow> string + claims" where
  "verifyRefreshToken cfg t now =
     (case jwt_verify t (jwtRefreshSecret cfg) now of
        Inl e \<Rightarrow> Inl ''Invalid or expired refresh token''
      | Inr p \<Rightarrow> Inr p)"

section \<open>One-time codes\<close>

text \<open>The filter \<^verbatim>\<open>{ email, verified: false }\<close> of \<^verbatim>\<open>deleteMany\<close>.\<close>

definition unverifiedFor :: "string \<Rightarrow> otp_code \<Rightarrow> bool" where
  "unverifiedFor email d = (otp_email d = normalizeEmail email \<and> \<not> otp_verified d)"

text \<open>The filter \<^verbatim>\<open>{ email, code, verified: false, expiresAt: { $gt: new Date() } }\<close>.\<close>

definition otpMatches :: "string \<Rightarrow> string \<Rightarrow> timestamp \<Rightarrow> otp_code \<Rightarrow> bool" where
  "otpMatches email code now d =
     (otp_email d = normalizeEmail email \<and> otp_code d = code \<and> \<not> otp_verified d
      \<and> otp_expiresAt d > now)"

text \<open>
  \<^verbatim>\<open>AuthService.sendOTPCode\<close>. \<open>rnd\<close> is the random draw; \<open>Inl\<close> is the error the
  method throws from its \<^verbatim>\<open>catch\<close> block, here when \<^verbatim>\<open>save()\<close> rejects the document.
  \<^verbatim>\<open>emailService.sendOTPEmail\<close> catches its own errors and returns a boolean, which the
  method does not read: the outcome of the delivery changes neither the result nor the
  database.
\<close>

definition sendOTPCode :: "db \<Rightarrow> timestamp \<Rightarrow> nat \<Rightarrow> string \<Rightarrow> (string + op_result) \<times> db" where
  "sendOTPCode d now rnd email =
     (case findUserByEmail (users d) (toLowerCase email) of
        None \<Rightarrow> (Inr \<lparr>ok = False, msg = ''No account found with this email address''\<rparr>, d)
      | Some u \<Rightarrow>
          if u_status u \<noteq> active
          then (Inr \<lparr>ok = False, msg = ''Account is inactive. Please contact administrator.''\<rparr>, d)
          else
            let d1 = d\<lparr>otps := deleteMany (unverifiedFor email) (otps d)\<rparr>;
                code = generateCode rnd;
                expiresAt = now + 5 * 60 * 1000;
                otpCode = \<lparr>otp_email = normalizeEmail email, otp_code = code,
                           otp_expiresAt = expiresAt, otp_verified = False,
                           otp_createdAt = now\<rparr>
            in if \<not> validateOTP otpCode then (Inl ''Failed to send OTP code'', d1)
               else
                 let d2 = d1\<lparr>otps := otps d1 @ [otpCode]\<rparr>
                 in (Inr \<lparr>ok = True, msg = ''OTP code sent to your email address''\<rparr>, d2))"

definition failure :: "string \<Rightarrow> auth_response" where
  "failure m = \<lparr>success = False, token = None, user = None, message = Some m\<rparr>"

text \<open>
  \<^verbatim>\<open>AuthService.verifyOTPCode\<close>. The lookup of the code comes first, then the user and
  the status; only then is the code marked and saved, the user updated and saved (the
  document written back is the one the lookup found), and the two tokens generated. The
  response carries \<open>token\<close> (the access token) and the user (\<^verbatim>\<open>user.toJSON()\<close>, which
  drops \<^verbatim>\<open>__v\<close> only: here the user as saved); the local \<open>refreshToken\<close> is not part
  of it.
\<close>

definition verifyOTPCode :: "auth_config \<Rightarrow> db \<Rightarrow> timestamp \<Rightarrow> string \<Rightarrow> string \<Rightarrow> auth_response \<times> db" where
  "verifyOTPCode cfg d now email code =
     (case findOne (otpMatches email code now) (otps d) of
        None \<Rightarrow> (failure ''Invalid or expired OTP code'', d)
      | Some otpCode \<Rightarrow>
          (case findUserByEmail (users d) (toLowerCase email) of
             None \<Rightarrow> (failure ''User not found'', d)
           | Some u \<Rightarrow>
               if u_status u \<noteq> active then (failure ''Account is inactive'', d)
               else
                 let d1 = d\<lparr>otps := updateFirst (otpMatches email code now)
                                       (\<lambda>c. c\<lparr>otp_verified := True\<rparr>) (otps d)\<rparr>;
                     u' = u\<lparr>u_lastLogin := Some now, u_emailVerified := True\<rparr>;
                     d2 = d1\<lparr>users := updateFirst
                                         (\<lambda>v. u_email v = normalizeEmail (toLowerCase email))
                                         (\<lambda>v. u') (users d1)\<rparr>;
                     tok = generateAccessToken cfg u' now;
                     refreshToken = generateRefreshToken cfg u' now
                 in (\<lparr>success = True, token = Some tok, user = Some u',
                      message = Some ''Login successful''\<rparr>, d2)))"

section \<open>Revocation\<close>

text \<open>
  \<^verbatim>\<open>AuthService.logout\<close>. The token is decoded, not verified; a payload without
  \<^verbatim>\<open>exp\<close> (or with \<^verbatim>\<open>exp\<close> 0) is refused. When \<^verbatim>\<open>new Date(decoded.exp * 1000)\<close> is not
  a valid date, \<^verbatim>\<open>save()\<close> fails in validation, with an error that is not the
  duplicate-key error, and the outer \<^verbatim>\<open>catch\<close> answers \<^verbatim>\<open>Logout failed\<close>. The \<^verbatim>\<open>token\<close>
  path has a unique index: saving a second entry for the same token raises the
  duplicate-key error 11000, which the method ignores.
\<close>

definition logout :: "db \<Rightarrow> timestamp \<Rightarrow> token \<Rightarrow> op_result \<times> db" where
  "logout d now t =
     (case jwt_decode t of
        None \<Rightarrow> (\<lparr>ok = False, msg = ''Invalid token''\<rparr>, d)
      | Some decoded \<Rightarrow>
          (case c_exp decoded of
             None \<Rightarrow> (\<lparr>ok = False, msg = ''Invalid token''\<rparr>, d)
           | Some e \<Rightarrow>
               if e = 0 then (\<lparr>ok = False, msg = ''Invalid token''\<rparr>, d)
               else
                 let expiresAt = e * 1000;
                     entry = \<lparr>bl_token = t, bl_expiresAt = expiresAt, bl_createdAt = now\<rparr>
                 in if \<not> validDate expiresAt then (\<lparr>ok = False, msg = ''Logout failed''\<rparr>, d)
                    else
                      let d' = (if list_ex (\<lambda>b. bl_token b = t) (blacklist d) then d
                                else d\<lparr>blacklist := blacklist d @ [entry]\<rparr>)
                      in (\<lparr>ok = True, msg = ''Logout successful''\<rparr>, d')))"

definition isTokenBlacklisted :: "db \<Rightarrow> timestamp \<Rightarrow> token \<Rightarrow> bool" where
  "isTokenBlacklisted d now t =
     (findOne (\<lambda>b. bl_token b = t \<and> bl_expiresAt b > now) (blacklist d) \<noteq> None)"

definition cleanExpiredTokens :: "db \<Rightarrow> timestamp \<Rightarrow> db" where
  "cleanExpiredTokens d now = d\<lparr>blacklist := deleteMany (\<lambda>b. bl_expiresAt b \<le> now) (blacklist d)\<rparr>"

definition getUserFromToken :: "auth_config \<Rightarrow> db \<Rightarrow> timestamp \<Rightarrow> token \<Rightarrow> user option" where
  "getUserFromToken cfg d now t =
     (case verifyAccessToken cfg t now of
        Inl e \<Rightarrow> None
      | Inr decoded \<Rightarrow> catchNull (findById (users d) (c_userId decoded)))"

section \<open>The authenticate middleware\<close>

text \<open>The \<^verbatim>\<open>Authorization\<close> header: absent, a string that does not start with
  \<^verbatim>\<open>'Bearer '\<close>, or \<^verbatim>\<open>'Bearer '\<close> followed by the token.\<close>

datatype authorization = Bearer token | NotBearer string

text \<open>What the middleware does with the request: a response with a status and a
  message, or \<^verbatim>\<open>next()\<close> with the user attached. Whatever is thrown inside, by
  \<^verbatim>\<open>verifyAccessToken\<close> or by \<^verbatim>\<open>User.findById\<close>, is answered by the \<^verbatim>\<open>catch\<close> block.\<close>

datatype auth_outcome = Rejected nat string | Next user

definition authenticate :: "auth_config \<Rightarrow> db \<Rightarrow> timestamp \<Rightarrow> authorization option \<Rightarrow> auth_outcome" where
  "authenticate cfg d now authHeader =
     (case authHeader of
        None \<Rightarrow> Rejected 401 ''Access token required''
      | Some (NotBearer s) \<Rightarrow> Rejected 401 ''Access token required''
      | Some (Bearer t) \<Rightarrow>
          if isTokenBlacklisted d now t then Rejected 401 ''Token has been revoked''
          else
            (case verifyAccessToken cfg t now of
               Inl e \<Rightarrow> Rejected 401 ''Invalid or expired token''
             | Inr decoded \<Rightarrow>
                 (case findById (users d) (c_userId decoded) of
                    Inl e \<Rightarrow> Rejected 401 ''Invalid or expired token''
                  | Inr None \<Rightarrow> Rejected 401 ''User not found''
                  | Inr (Some u) \<Rightarrow>
                      if u_status u \<noteq> active then Rejected 401 ''Account is inactive''
                      else Next u)))"

section \<open>Histories\<close>

text \<open>
  What can happen to the database between two calls: the calls of the service, the
  removal of expired documents (\<^verbatim>\<open>cleanExpiredTokens\<close>, and the TTL indexes
  \<^verbatim>\<open>expireAfterSeconds: 0\<close> that both schemas declare on \<^verbatim>\<open>expiresAt\<close>), and any change
  of the user directory by the rest of the backend.
\<close>

datatype event =
    SendOTP timestamp nat string
  | VerifyOTP timestamp string string
  | Logout timestamp token
  | CleanExpiredTokens timestamp
  | TTLPurge timestamp
  | UsersChanged "user list"

text \<open>The TTL monitor of the store: documents whose \<^verbatim>\<open>expiresAt\<close> has passed are
  removed from both collections.\<close>

definition ttlPurge :: "db \<Rightarrow> timestamp \<Rightarrow> db" where
  "ttlPurge d now =
     d\<lparr>otps := deleteMany (\<lambda>c. otp_expiresAt c \<le> now) (otps d),
       blacklist := deleteMany (\<lambda>b. bl_expiresAt b \<le> now) (blacklist d)\<rparr>"

fun step :: "auth_config \<Rightarrow> db \<Rightarrow> event \<Rightarrow> db" where
  "step cfg d (SendOTP now rnd email) = snd (sendOTPCode d now rnd email)"
| "step cfg d (VerifyOTP now email code) = snd (verifyOTPCode cfg d now email code)"
| "step cfg d (Logout now t) = snd (logout d now t)"
| "step cfg d (CleanExpiredTokens now) = cleanExpiredTokens d now"
| "step cfg d (TTLPurge now) = ttlPurge d now"
| "step cfg d (UsersChanged us) = d\<lparr>users := us\<rparr>"

definition run :: "auth_config \<Rightarrow> db \<Rightarrow> event list \<Rightarrow> db" where
  "run cfg d evs = foldl (step cfg) d evs"

text \<open>An event that stores a new code with the same email and the same digits.\<close>

fun reissues :: "string \<Rightarrow> string \<Rightarrow> event \<Rightarrow> bool" where
  "reissues email code (SendOTP now rnd e) =
     (normalizeEmail e = normalizeEmail email \<and> generateCode rnd = code)"
| "reissues email code ev = False"

text \<open>An event that happens no later than \<open>now\<close>; changes of the user directory carry
  no time.\<close>

fun happensBy :: "timestamp \<Rightarrow> event \<Rightarrow> bool" where
  "happensBy now (SendOTP n rnd email) = (n \<le> now)"
| "happensBy now (VerifyOTP n email code) = (n \<le> now)"
| "happensBy now (Logout n t) = (n \<le> now)"
| "happensBy now (CleanExpiredTokens n) = (n \<le> now)"
| "happensBy now (TTLPurge n) = (n \<le> now)"
| "happensBy now (UsersChanged us) = True"

section \<open>Invariants\<close>

text \<open>No two unconsumed codes have the same email.\<close>

definition singleActive :: "otp_code list \<Rightarrow> bool" where
  "singleActive os = distinct (map otp_email (filter (\<lambda>c. \<not> otp_verified c) os))"

text \<open>Every unconsumed code stored for the email with these digits has expired by \<open>T\<close>.\<close>

definition expiredBy :: "timestamp \<Rightarrow> string \<Rightarrow> string \<Rightarrow> otp_code list \<Rightarrow> bool" where
  "expiredBy T email code os =
     list_all (\<lambda>c. \<not> (otp_email c = normalizeEmail email \<and> otp_code c = code \<and> \<not> otp_verified c)
                    \<or> otp_expiresAt c \<le> T) os"

text \<open>The four ways in which a pair of email and code can be wrong: no code was ever
  stored for the email; codes are stored for it, none with these digits; every stored
  code with these digits has expired; every stored code with these digits is consumed.\<close>

definition neverIssued :: "string \<Rightarrow> db \<Rightarrow> bool" where
  "neverIssued email d = list_all (\<lambda>c. otp_email c \<noteq> normalizeEmail email) (otps d)"

definition wrongCode :: "string \<Rightarrow> string \<Rightarrow> db \<Rightarrow> bool" where
  "wrongCode email code d =
     (list_ex (\<lambda>c. otp_email c = normalizeEmail email) (otps d) \<and>
      list_all (\<lambda>c. otp_email c = normalizeEmail email \<longrightarrow> otp_code c \<noteq> code) (otps d))"

definition expiredCode :: "string \<Rightarrow> string \<Rightarrow> timestamp \<Rightarrow> db \<Rightarrow> bool" where
  "expiredCode email code now d =
     (list_ex (\<lambda>c. otp_email c = normalizeEmail email \<and> otp_code c = code) (otps d) \<and>
      list_all (\<lambda>c. otp_email c = normalizeEmail email \<and> otp_code c = code
                      \<longrightarrow> otp_expiresAt c \<le> now) (otps d))"

definition consumedCode :: "string \<Rightarrow> string \<Rightarrow> db \<Rightarrow> bool" where
  "consumedCode email code d =
     (list_ex (\<lambda>c. otp_email c = normalizeEmail email \<and> otp_code c = code) (otps d) \<and>
      list_all (\<lambda>c. otp_email c = normalizeEmail email \<and> otp_code c = code
                      \<longrightarrow> otp_verified c) (otps d))"

text \<open>The unique index on \<^verbatim>\<open>token\<close>, and the agreement of every entry with the
  \<^verbatim>\<open>exp\<close> claim of its token, which is how \<^verbatim>\<open>logout\<close> builds entries.\<close>

definition uniqueTokens :: "blacklist_entry list \<Rightarrow> bool" where
  "uniqueTokens bs = distinct (map bl_token bs)"

definition expiryOf :: "token \<Rightarrow> int option" where
  "expiryOf t = (case jwt_decode t of None \<Rightarrow> None | Some p \<Rightarrow> c_exp p)"

definition blacklistConsistent :: "blacklist_entry list \<Rightarrow> bool" where
  "blacklistConsistent bs =
     list_all (\<lambda>b. case expiryOf (bl_token b) of
                      None \<Rightarrow> False
                    | Some e \<Rightarrow> bl_expiresAt b = e * 1000) bs"

text \<open>The blacklist holds the token with the expiry \<open>e\<close> (in seconds) of its payload.\<close>

definition liveEntry :: "token \<Rightarrow> int \<Rightarrow> blacklist_entry list \<Rightarrow> bool" where
  "liveEntry t e bs = list_ex (\<lambda>b. bl_token b = t \<and> bl_expiresAt b = e * 1000) bs"

section \<open>Example data\<close>

definition cfg_ex :: auth_config where
  "cfg_ex = \<lparr>jwtSecret = ''access-secret'', jwtRefreshSecret = ''refresh-secret'',
             jwtExpire = 86400, jwtRefreshExpire = 604800\<rparr>"

definition alice :: user where
  "alice = \<lparr>u_id = ''64a1'', u_email = ''a@b.rw'', u_role = citizen, u_status = active,
            u_lastLogin = None, u_emailVerified = False\<rparr>"

definition bob :: user where
  "bob = \<lparr>u_id = ''64a2'', u_email = ''bob@b.rw'', u_role = citizen, u_status = inactive,
          u_lastLogin = None, u_emailVerified = False\<rparr>"

definition alice_in :: user where
  "alice_in = alice\<lparr>u_lastLogin := Some 2000, u_emailVerified := True\<rparr>"

definition otp_ex :: "string \<Rightarrow> otp_code" where
  "otp_ex e = \<lparr>otp_email = e, otp_code = ''123456'', otp_expiresAt = 301000,
               otp_verified = False, otp_createdAt = 1000\<rparr>"

definition db_ex :: db where
  "db_ex = \<lparr>users = [alice, bob], otps = [], blacklist = []\<rparr>"

definition db_issued :: db where
  "db_issued = \<lparr>users = [alice, bob], otps = [otp_ex ''a@b.rw''], blacklist = []\<rparr>"

definition db_sent :: db where
  "db_sent = \<lparr>users = [alice, bob], otps = [otp_ex ''a@b.rw'', otp_ex ''bob@b.rw''], blacklist = []\<rparr>"

definition db_consumed :: db where
  "db_consumed = \<lparr>users = [alice_in, bob],
                  otps = [(otp_ex ''a@b.rw'')\<lparr>otp_verified := True\<rparr>], blacklist = []\<rparr>"

definition db_used :: db where
  "db_used = \<lparr>users = [alice, bob], otps = [(otp_ex ''a@b.rw'')\<lparr>otp_verified := True\<rparr>],
              blacklist = []\<rparr>"

definition claims_bob :: claims where
  "claims_bob = \<lparr>c_userId = Some (ObjectId ''64a2''), c_email = Some ''bob@b.rw'', c_role = Some citizen,
                  c_type = Some ''access'', c_iat = Some 1, c_exp = Some 86401\<rparr>"

definition tok_bob :: token where
  "tok_bob = Jwt claims_bob (HS256 ''access-secret'' claims_bob)"

definition claims_alice :: claims where
  "claims_alice = \<lparr>c_userId = Some (ObjectId ''64a1''), c_email = Some ''a@b.rw'', c_role = Some citizen,
                    c_type = Some ''access'', c_iat = Some 1, c_exp = Some 86401\<rparr>"

definition tok_alice :: token where
  "tok_alice = Jwt claims_alice (HS256 ''access-secret'' claims_alice)"

definition evs_ex :: "event list" where
  "evs_ex = [VerifyOTP 2100 ''a@b.rw'' ''123456'', SendOTP 2200 0 ''a@b.rw'',
             Logout 2300 tok_alice, TTLPurge 2400, UsersChanged [alice]]"


text \<open>A token signed with the access secret whose \<^verbatim>\<open>userId\<close> does not cast to an id.\<close>

definition claims_badid :: claims where
  "claims_badid = \<lparr>c_userId = Some (Uncastable ''me''), c_email = Some ''a@b.rw'',
                    c_role = Some citizen, c_type = Some ''access'', c_iat = Some 1,
                    c_exp = Some 86401\<rparr>"

definition tok_badid :: token where
  "tok_badid = Jwt claims_badid (HS256 ''access-secret'' claims_badid)"


section \<open>Evaluation of the examples\<close>

lemma digitChar_simps:
  "digitChar 0 = CHR ''0''" "digitChar (Suc 0) = CHR ''1''" "digitChar 2 = CHR ''2''"
  "digitChar 3 = CHR ''3''" "digitChar 4 = CHR ''4''" "digitChar 5 = CHR ''5''"
  "digitChar 6 = CHR ''6''" "digitChar 7 = CHR ''7''" "digitChar 8 = CHR ''8''"
  "digitChar 9 = CHR ''9''"
  by code_simp+

lemma generateCode_ex: "generateCode 23456 = ''123456''" "generateCode 0 = ''100000''"
  by (simp_all add: generateCode_def toString.simps digitChar_simps)

lemma normalizeEmail_ex:
  "normalizeEmail ''a@b.rw'' = ''a@b.rw''"
  "normalizeEmail '' A@B.rw '' = ''a@b.rw''"
  "normalizeEmail ''bob@b.rw'' = ''bob@b.rw''"
  "normalizeEmail ''c@d.rw'' = ''c@d.rw''"
  by code_simp+

lemma toLowerCase_ex:
  "toLowerCase ''a@b.rw'' = ''a@b.rw''"
  "toLowerCase ''bob@b.rw'' = ''bob@b.rw''"
  "toLowerCase ''c@d.rw'' = ''c@d.rw''"
  "toLowerCase '' A@B.rw '' = '' a@b.rw ''"
  by code_simp+

lemma normalizeEmail_padded_ex: "normalizeEmail '' a@b.rw '' = ''a@b.rw''"
  by code_simp

text \<open>The filter of the user lookup is the normalized email: \<^verbatim>\<open>toLowerCase\<close> before the
  setters changes nothing.\<close>

lemma toLowerChar_idem: "toLowerChar (toLowerChar c) = toLowerChar c"
  by (cases c) (auto simp: toLowerChar_def Let_def)

lemma normalizeEmail_toLowerCase: "normalizeEmail (toLowerCase e) = normalizeEmail e"
proof -
  have "toLowerChar \<circ> toLowerChar = toLowerChar"
    by (simp add: fun_eq_iff toLowerChar_idem)
  then show ?thesis
    by (simp add: normalizeEmail_def toLowerCase_def)
qed

lemma findUserByEmail_toLowerCase:
  "findUserByEmail us (toLowerCase email) = findOne (\<lambda>u. u_email u = normalizeEmail email) us"
  by (simp add: findUserByEmail_def normalizeEmail_toLowerCase)

section \<open>Lookups\<close>

lemma findOne_None_iff: "findOne P xs = None \<longleftrightarrow> \<not> list_ex P xs"
  by (auto simp: findOne_def find_None_iff list_ex_iff)

lemma findOne_Some_holds: "findOne P xs = Some x \<Longrightarrow> P x \<and> x \<in> set xs"
  unfolding findOne_def by (induction xs) (auto split: if_splits)

lemma list_all_deleteMany: "list_all Q xs \<Longrightarrow> list_all Q (deleteMany P xs)"
  by (simp add: deleteMany_def list_all_iff)

lemma list_all_updateFirst:
  "list_all Q xs \<Longrightarrow> (\<And>x. Q (f x)) \<Longrightarrow> list_all Q (updateFirst P f xs)"
  by (induction xs) auto

section \<open>Token kinds\<close>

lemma verifyAccessToken_sign:
  "verifyAccessToken cfg (jwt_sign p secret life t0) t =
     (if secret \<noteq> jwtSecret cfg \<or> t0 div 1000 + life \<le> t div 1000
      then Inl ''Invalid or expired token''
      else Inr (p\<lparr>c_iat := Some (t0 div 1000), c_exp := Some (t0 div 1000 + life)\<rparr>))"
  by (simp add: verifyAccessToken_def jwt_sign_def Let_def)

lemma verifyRefreshToken_sign:
  "verifyRefreshToken cfg (jwt_sign p secret life t0) t =
     (if secret \<noteq> jwtRefreshSecret cfg \<or> t0 div 1000 + life \<le> t div 1000
      then Inl ''Invalid or expired refresh token''
      else Inr (p\<lparr>c_iat := Some (t0 div 1000), c_exp := Some (t0 div 1000 + life)\<rparr>))"
  by (simp add: verifyRefreshToken_def jwt_sign_def Let_def)

text \<open>
  Claim C8. When the access secret and the refresh secret are distinct, a token made by
  \<^verbatim>\<open>generateRefreshToken\<close> fails \<^verbatim>\<open>verifyAccessToken\<close> and a token made by
  \<^verbatim>\<open>generateAccessToken\<close> fails \<^verbatim>\<open>verifyRefreshToken\<close>, for every user, at every time
  of issue and of verification. The verifiers do not read the \<^verbatim>\<open>type\<close> claim: the
  separation rests on the secrets alone.
\<close>

theorem token_kind_isolation:
  assumes "jwtSecret cfg \<noteq> jwtRefreshSecret cfg"
  shows "verifyAccessToken cfg (generateRefreshToken cfg u t0) t = Inl ''Invalid or expired token''
       \<and> verifyRefreshToken cfg (generateAccessToken cfg u t0) t = Inl ''Invalid or expired refresh token''"
  using assms
  by (simp add: generateRefreshToken_def generateAccessToken_def verifyAccessToken_sign
      verifyRefreshToken_sign)

theorem token_kind_isolation_witness:
  "jwtSecret cfg_ex \<noteq> jwtRefreshSecret cfg_ex
   \<and> verifyAccessToken cfg_ex (generateRefreshToken cfg_ex alice 1000) 2000
       = Inl ''Invalid or expired token''
   \<and> verifyRefreshToken cfg_ex (generateAccessToken cfg_ex alice 1000) 2000
       = Inl ''Invalid or expired refresh token''
   \<and> verifyAccessToken cfg_ex (generateAccessToken cfg_ex alice 1000) 2000
       = Inr \<lparr>c_userId = Some (ObjectId ''64a1''), c_email = Some ''a@b.rw'', c_role = Some citizen,
               c_type = Some ''access'', c_iat = Some 1, c_exp = Some 86401\<rparr>"
proof -
  have ne: "jwtSecret cfg_ex \<noteq> jwtRefreshSecret cfg_ex"
    by (simp add: cfg_ex_def)
  have own: "verifyAccessToken cfg_ex (generateAccessToken cfg_ex alice 1000) 2000
       = Inr \<lparr>c_userId = Some (ObjectId ''64a1''), c_email = Some ''a@b.rw'', c_role = Some citizen,
               c_type = Some ''access'', c_iat = Some 1, c_exp = Some 86401\<rparr>"
    by (simp add: generateAccessToken_def verifyAccessToken_sign cfg_ex_def alice_def)
  show ?thesis
    using ne own token_kind_isolation [OF ne, of alice 1000 2000] by simp
qed

section \<open>Uniform failure of the code lookup\<close>

lemma verifyOTPCode_no_match:
  "\<not> list_ex (otpMatches email code now) (otps d) \<Longrightarrow>
     verifyOTPCode cfg d now email code = (failure ''Invalid or expired OTP code'', d)"
proof -
  assume "\<not> list_ex (otpMatches email code now) (otps d)"
  then have "findOne (otpMatches email code now) (otps d) = None"
    by (simp add: findOne_None_iff)
  then show ?thesis by (simp add: verifyOTPCode_def)
qed

text \<open>
  Claim C9. In each of the four cases (no code ever stored for the email, wrong code,
  expired code, consumed code) \<^verbatim>\<open>verifyOTPCode\<close> returns the same response,
  \<^verbatim>\<open>{ success: false, message: 'Invalid or expired OTP code' }\<close>, and leaves the database
  as it was, whoever the user is.
\<close>

theorem verifyOTPCode_uniform_failure:
  assumes "neverIssued email d \<or> wrongCode email code d
           \<or> expiredCode email code now d \<or> consumedCode email code d"
  shows "verifyOTPCode cfg d now email code = (failure ''Invalid or expired OTP code'', d)"
proof -
  have "\<not> list_ex (otpMatches email code now) (otps d)"
    using assms
    by (auto simp: neverIssued_def wrongCode_def expiredCode_def consumedCode_def
        otpMatches_def list_ex_iff list_all_iff)
  then show ?thesis by (rule verifyOTPCode_no_match)
qed

theorem verifyOTPCode_uniform_failure_witness:
  "neverIssued ''c@d.rw'' db_sent
   \<and> verifyOTPCode cfg_ex db_sent 2000 ''c@d.rw'' ''123456''
       = (failure ''Invalid or expired OTP code'', db_sent)
   \<and> wrongCode ''a@b.rw'' ''000000'' db_sent
   \<and> verifyOTPCode cfg_ex db_sent 2000 ''a@b.rw'' ''000000''
       = (failure ''Invalid or expired OTP code'', db_sent)
   \<and> expiredCode ''a@b.rw'' ''123456'' 302000 db_sent
   \<and> verifyOTPCode cfg_ex db_sent 302000 ''a@b.rw'' ''123456''
       = (failure ''Invalid or expired OTP code'', db_sent)
   \<and> consumedCode ''a@b.rw'' ''123456'' db_used
   \<and> verifyOTPCode cfg_ex db_used 2000 ''a@b.rw'' ''123456''
       = (failure ''Invalid or expired OTP code'', db_used)"
proof -
  have a: "neverIssued ''c@d.rw'' db_sent"
    by (simp add: neverIssued_def db_sent_def otp_ex_def normalizeEmail_ex)
  have b: "wrongCode ''a@b.rw'' ''000000'' db_sent"
    by (simp add: wrongCode_def db_sent_def otp_ex_def normalizeEmail_ex)
  have c: "expiredCode ''a@b.rw'' ''123456'' 302000 db_sent"
    by (simp add: expiredCode_def db_sent_def otp_ex_def normalizeEmail_ex)
  have d: "consumedCode ''a@b.rw'' ''123456'' db_used"
    by (simp add: consumedCode_def db_used_def otp_ex_def normalizeEmail_ex)
  show ?thesis
    using a b c d
      verifyOTPCode_uniform_failure [of "''c@d.rw''" db_sent "''123456''" 2000 cfg_ex]
      verifyOTPCode_uniform_failure [of "''a@b.rw''" db_sent "''000000''" 2000 cfg_ex]
      verifyOTPCode_uniform_failure [of "''a@b.rw''" db_sent "''123456''" 302000 cfg_ex]
      verifyOTPCode_uniform_failure [of "''a@b.rw''" db_used "''123456''" 2000 cfg_ex]
    by simp
qed

section \<open>The user returned for a token\<close>

lemma findOne_map:
  "(\<And>x. P (f x) = P x) \<Longrightarrow> findOne P (map f xs) = map_option f (findOne P xs)"
  unfolding findOne_def by (induction xs) auto

lemma findById_status_update:
  "catchNull (findById (map (\<lambda>u. u\<lparr>u_status := s u\<rparr>) us) i)
     = map_option (\<lambda>u. u\<lparr>u_status := s u\<rparr>) (catchNull (findById us i))"
  by (simp add: findById_def catchNull_def findOne_map split: option.splits id_value.splits)

lemma users_logout: "users (snd (logout d now t)) = users d"
  by (simp add: logout_def Let_def split: option.splits)

text \<open>
  Claim C10. For a token that \<^verbatim>\<open>verifyAccessToken\<close> accepts, \<^verbatim>\<open>getUserFromToken\<close>
  returns the user found by the token's \<^verbatim>\<open>userId\<close>: the same after a logout of this very
  token and under any other blacklist, and with any status of the users (a change of the
  statuses changes only the status field of the user returned). It returns nothing
  exactly when the verification fails or the lookup fails: \<^verbatim>\<open>findById\<close> throws, or no
  user has that id.
\<close>

theorem getUserFromToken_blacklist_status:
  "(verifyAccessToken cfg t now = Inr decoded \<longrightarrow>
      getUserFromToken cfg (snd (logout d n0 t)) now t
        = catchNull (findById (users d) (c_userId decoded))
      \<and> getUserFromToken cfg (d\<lparr>blacklist := bl\<rparr>) now t
          = catchNull (findById (users d) (c_userId decoded))
      \<and> getUserFromToken cfg (d\<lparr>users := map (\<lambda>u. u\<lparr>u_status := s u\<rparr>) (users d)\<rparr>) now t
          = map_option (\<lambda>u. u\<lparr>u_status := s u\<rparr>)
              (catchNull (findById (users d) (c_userId decoded))))
   \<and> (getUserFromToken cfg d now t = None \<longleftrightarrow>
        (case verifyAccessToken cfg t now of
           Inl e \<Rightarrow> True
         | Inr p \<Rightarrow> findById (users d) (c_userId p) = Inl CastError
                   \<or> findById (users d) (c_userId p) = Inr None))"
proof -
  have "catchNull r = None \<longleftrightarrow> r = Inl CastError \<or> r = Inr None" for r
    by (cases r) (auto simp: catchNull_def intro: cast_error.exhaust)
  then show ?thesis
    by (simp add: getUserFromToken_def users_logout findById_status_update split: sum.splits)
qed

lemma generateAccessToken_ex:
  "generateAccessToken cfg_ex bob 1000 = tok_bob"
  by (simp add: generateAccessToken_def jwt_sign_def tok_bob_def claims_bob_def cfg_ex_def bob_def
      Let_def)

lemma verify_tok_bob: "verifyAccessToken cfg_ex tok_bob 2000 = Inr claims_bob"
  by (simp add: verifyAccessToken_def tok_bob_def claims_bob_def cfg_ex_def)

lemma logout_tok_bob:
  "logout d 1500 tok_bob =
     (\<lparr>ok = True, msg = ''Logout successful''\<rparr>,
      if list_ex (\<lambda>b. bl_token b = tok_bob) (blacklist d) then d
      else d\<lparr>blacklist := blacklist d @
             [\<lparr>bl_token = tok_bob, bl_expiresAt = 86401000, bl_createdAt = 1500\<rparr>]\<rparr>)"
  by (simp add: logout_def tok_bob_def claims_bob_def validDate_def Let_def)

theorem getUserFromToken_blacklist_status_witness:
  "generateAccessToken cfg_ex bob 1000 = tok_bob
   \<and> verifyAccessToken cfg_ex tok_bob 2000 = Inr claims_bob
   \<and> isTokenBlacklisted (snd (logout db_ex 1500 tok_bob)) 2000 tok_bob
   \<and> u_status bob = inactive
   \<and> getUserFromToken cfg_ex (snd (logout db_ex 1500 tok_bob)) 2000 tok_bob = Some bob
   \<and> getUserFromToken cfg_ex db_ex 2000 (Malformed ''x'') = None"
proof -
  have bl: "isTokenBlacklisted (snd (logout db_ex 1500 tok_bob)) 2000 tok_bob"
    by (simp add: logout_tok_bob db_ex_def isTokenBlacklisted_def findOne_def)
  have look: "findById (users db_ex) (c_userId claims_bob) = Inr (Some bob)"
    by (simp add: findById_def findOne_def db_ex_def claims_bob_def alice_def bob_def)
  have bad: "verifyAccessToken cfg_ex (Malformed ''x'') 2000 = Inl ''Invalid or expired token''"
    by (simp add: verifyAccessToken_def)
  show ?thesis
    using generateAccessToken_ex verify_tok_bob bl look bad
      getUserFromToken_blacklist_status [of cfg_ex tok_bob 2000 claims_bob db_ex 1500 "[]" "\<lambda>u. active"]
      getUserFromToken_blacklist_status [of cfg_ex "Malformed ''x''" 2000 claims_bob db_ex 1500 "[]" "\<lambda>u. active"]
    by (simp add: bob_def catchNull_def)
qed

text \<open>A verified token whose \<^verbatim>\<open>userId\<close> does not cast: \<^verbatim>\<open>findById\<close> throws, which
  \<^verbatim>\<open>getUserFromToken\<close> turns into no user and \<^verbatim>\<open>authenticate\<close> into the answer of its
  \<^verbatim>\<open>catch\<close> block.\<close>

lemma uncastable_id_ex:
  "verifyAccessToken cfg_ex tok_badid 2000 = Inr claims_badid"
  "getUserFromToken cfg_ex db_ex 2000 tok_badid = None"
  "authenticate cfg_ex db_ex 2000 (Some (Bearer tok_badid))
     = Rejected 401 ''Invalid or expired token''"
  by (simp_all add: verifyAccessToken_def getUserFromToken_def authenticate_def
      isTokenBlacklisted_def findOne_def findById_def catchNull_def tok_badid_def
      claims_badid_def cfg_ex_def db_ex_def)

section \<open>The response of a successful verification\<close>

lemma access_not_refresh: "generateAccessToken cfg u now \<noteq> generateRefreshToken cfg u now"
  by (simp add: generateAccessToken_def generateRefreshToken_def jwt_sign_def Let_def)

text \<open>
  Claim C1, as the code has it. A successful \<^verbatim>\<open>verifyOTPCode\<close> returns the user and, in
  its one token field, the access token made for that user; the refresh token made by
  the same call is a different token and is not in the response.
\<close>

theorem verifyOTPCode_response_tokens:
  assumes "verifyOTPCode cfg d now email code = (r, d')" and "success r"
  shows "\<exists>u. user r = Some u \<and> token r = Some (generateAccessToken cfg u now)
             \<and> token r \<noteq> Some (generateRefreshToken cfg u now)"
  using assms
  by (auto simp: verifyOTPCode_def failure_def Let_def access_not_refresh
      split: option.splits if_splits)

lemma verify_alice_ex:
  "verifyOTPCode cfg_ex db_sent 2000 ''a@b.rw'' ''123456'' =
     (\<lparr>success = True, token = Some (generateAccessToken cfg_ex alice_in 2000),
       user = Some alice_in, message = Some ''Login successful''\<rparr>,
      \<lparr>users = [alice_in, bob],
       otps = [(otp_ex ''a@b.rw'')\<lparr>otp_verified := True\<rparr>, otp_ex ''bob@b.rw''],
       blacklist = []\<rparr>)"
  by (simp add: verifyOTPCode_def db_sent_def alice_def alice_in_def bob_def findUserByEmail_def
      findOne_def toLowerCase_ex normalizeEmail_ex otpMatches_def otp_ex_def Let_def)

text \<open>A padded, upper-case email names the same user and the same code.\<close>

lemma verify_padded_ex:
  "verifyOTPCode cfg_ex db_sent 2000 '' A@B.rw '' ''123456'' =
     (\<lparr>success = True, token = Some (generateAccessToken cfg_ex alice_in 2000),
       user = Some alice_in, message = Some ''Login successful''\<rparr>,
      \<lparr>users = [alice_in, bob],
       otps = [(otp_ex ''a@b.rw'')\<lparr>otp_verified := True\<rparr>, otp_ex ''bob@b.rw''],
       blacklist = []\<rparr>)"
  by (simp add: verifyOTPCode_def db_sent_def alice_def alice_in_def bob_def findUserByEmail_def
      findOne_def toLowerCase_ex normalizeEmail_ex normalizeEmail_padded_ex otpMatches_def
      otp_ex_def Let_def)

theorem verifyOTPCode_response_tokens_witness:
  "fst (verifyOTPCode cfg_ex db_sent 2000 ''a@b.rw'' ''123456'') =
     \<lparr>success = True, token = Some (generateAccessToken cfg_ex alice_in 2000),
      user = Some alice_in, message = Some ''Login successful''\<rparr>
   \<and> token (fst (verifyOTPCode cfg_ex db_sent 2000 ''a@b.rw'' ''123456''))
       \<noteq> Some (generateRefreshToken cfg_ex alice_in 2000)"
  using verify_alice_ex
    verifyOTPCode_response_tokens [of cfg_ex db_sent 2000 "''a@b.rw''" "''123456''"
      "fst (verifyOTPCode cfg_ex db_sent 2000 ''a@b.rw'' ''123456'')"
      "snd (verifyOTPCode cfg_ex db_sent 2000 ''a@b.rw'' ''123456'')"]
  by simp

section \<open>When the code is marked consumed\<close>

lemma updateFirst_mem: "findOne P xs = Some c \<Longrightarrow> f c \<in> set (updateFirst P f xs)"
  unfolding findOne_def by (induction xs) (auto split: if_splits)

lemma updateFirst_count:
  "findOne P xs = Some c \<Longrightarrow> \<not> P (f c) \<Longrightarrow>
     length (filter P (updateFirst P f xs)) + 1 = length (filter P xs)"
  unfolding findOne_def by (induction xs) (auto split: if_splits)

lemma otps_verify_success:
  "findOne (otpMatches email code now) (otps d) = Some c \<Longrightarrow>
   findUserByEmail (users d) (toLowerCase email) = Some u \<Longrightarrow> u_status u = active \<Longrightarrow>
     success (fst (verifyOTPCode cfg d now email code))
     \<and> otps (snd (verifyOTPCode cfg d now email code))
         = updateFirst (otpMatches email code now) (\<lambda>c. c\<lparr>otp_verified := True\<rparr>) (otps d)"
  by (simp add: verifyOTPCode_def Let_def)

text \<open>
  Claim C2, amended. When an unconsumed, unexpired code matches the email and the code,
  what happens next depends on the user: if no user has the email, or the user is not
  active, \<^verbatim>\<open>verifyOTPCode\<close> fails and returns the database unchanged, the matching code
  still unconsumed; only for an active user is the first matching code marked consumed
  and saved, after which one code fewer matches.
\<close>

theorem verifyOTPCode_consumes_after_user_checks:
  assumes "findOne (otpMatches email code now) (otps d) = Some c"
  shows "c \<in> set (otps d) \<and> \<not> otp_verified c \<and>
     (case findUserByEmail (users d) (toLowerCase email) of
        None \<Rightarrow> verifyOTPCode cfg d now email code = (failure ''User not found'', d)
      | Some u \<Rightarrow>
          if u_status u \<noteq> active
          then verifyOTPCode cfg d now email code = (failure ''Account is inactive'', d)
          else success (fst (verifyOTPCode cfg d now email code))
             \<and> otps (snd (verifyOTPCode cfg d now email code))
                 = updateFirst (otpMatches email code now) (\<lambda>c. c\<lparr>otp_verified := True\<rparr>) (otps d)
             \<and> c\<lparr>otp_verified := True\<rparr> \<in> set (otps (snd (verifyOTPCode cfg d now email code)))
             \<and> length (filter (otpMatches email code now)
                         (otps (snd (verifyOTPCode cfg d now email code)))) + 1
                 = length (filter (otpMatches email code now) (otps d)))"
proof -
  have c: "otpMatches email code now c" "c \<in> set (otps d)"
    using findOne_Some_holds [OF assms] by simp_all
  then have nv: "\<not> otp_verified c"
    by (simp add: otpMatches_def)
  have gone: "\<not> otpMatches email code now (c\<lparr>otp_verified := True\<rparr>)"
    by (simp add: otpMatches_def)
  show ?thesis
  proof (cases "findUserByEmail (users d) (toLowerCase email)")
    case None
    with assms c nv show ?thesis by (simp add: verifyOTPCode_def)
  next
    case (Some u)
    show ?thesis
    proof (cases "u_status u = active")
      case False
      with assms Some c nv show ?thesis by (simp add: verifyOTPCode_def)
    next
      case True
      note ok = otps_verify_success [OF assms Some True, of cfg]
      show ?thesis
        using c nv Some True ok updateFirst_mem [OF assms]
          updateFirst_count [where f = "\<lambda>c. c\<lparr>otp_verified := True\<rparr>", OF assms gone]
        by simp
    qed
  qed
qed

theorem verifyOTPCode_consumes_after_user_checks_witness:
  "verifyOTPCode cfg_ex db_sent 2000 ''bob@b.rw'' ''123456'' = (failure ''Account is inactive'', db_sent)
   \<and> otp_ex ''bob@b.rw'' \<in> set (otps db_sent) \<and> \<not> otp_verified (otp_ex ''bob@b.rw'')
   \<and> success (fst (verifyOTPCode cfg_ex db_sent 2000 ''a@b.rw'' ''123456''))
   \<and> (otp_ex ''a@b.rw'')\<lparr>otp_verified := True\<rparr>
        \<in> set (otps (snd (verifyOTPCode cfg_ex db_sent 2000 ''a@b.rw'' ''123456'')))
   \<and> success (fst (verifyOTPCode cfg_ex db_sent 2000 '' A@B.rw '' ''123456''))
   \<and> (otp_ex ''a@b.rw'')\<lparr>otp_verified := True\<rparr>
        \<in> set (otps (snd (verifyOTPCode cfg_ex db_sent 2000 '' A@B.rw '' ''123456'')))"
proof -
  have fp: "findOne (otpMatches '' A@B.rw '' ''123456'' 2000) (otps db_sent) = Some (otp_ex ''a@b.rw'')"
    by (simp add: findOne_def db_sent_def otpMatches_def otp_ex_def normalizeEmail_ex)
  have up: "findUserByEmail (users db_sent) (toLowerCase '' A@B.rw '') = Some alice"
    by (simp add: findUserByEmail_def findOne_def db_sent_def toLowerCase_ex
        normalizeEmail_padded_ex alice_def)
  have fa: "findOne (otpMatches ''a@b.rw'' ''123456'' 2000) (otps db_sent) = Some (otp_ex ''a@b.rw'')"
    by (simp add: findOne_def db_sent_def otpMatches_def otp_ex_def normalizeEmail_ex)
  have fb: "findOne (otpMatches ''bob@b.rw'' ''123456'' 2000) (otps db_sent) = Some (otp_ex ''bob@b.rw'')"
    by (simp add: findOne_def db_sent_def otpMatches_def otp_ex_def normalizeEmail_ex)
  have ua: "findUserByEmail (users db_sent) (toLowerCase ''a@b.rw'') = Some alice"
    by (simp add: findUserByEmail_def findOne_def db_sent_def toLowerCase_ex normalizeEmail_ex
        alice_def)
  have ub: "findUserByEmail (users db_sent) (toLowerCase ''bob@b.rw'') = Some bob"
    by (simp add: findUserByEmail_def findOne_def db_sent_def toLowerCase_ex normalizeEmail_ex
        alice_def bob_def)
  have st: "u_status alice = active" "u_status bob \<noteq> active"
    by (simp_all add: alice_def bob_def)
  have a: "success (fst (verifyOTPCode cfg_ex db_sent 2000 ''a@b.rw'' ''123456''))
      \<and> (otp_ex ''a@b.rw'')\<lparr>otp_verified := True\<rparr>
           \<in> set (otps (snd (verifyOTPCode cfg_ex db_sent 2000 ''a@b.rw'' ''123456'')))"
    using verifyOTPCode_consumes_after_user_checks [OF fa, of cfg_ex] ua st by auto
  have b: "verifyOTPCode cfg_ex db_sent 2000 ''bob@b.rw'' ''123456''
             = (failure ''Account is inactive'', db_sent)
      \<and> otp_ex ''bob@b.rw'' \<in> set (otps db_sent) \<and> \<not> otp_verified (otp_ex ''bob@b.rw'')"
    using verifyOTPCode_consumes_after_user_checks [OF fb, of cfg_ex] ub st by auto
  have p: "success (fst (verifyOTPCode cfg_ex db_sent 2000 '' A@B.rw '' ''123456''))
      \<and> (otp_ex ''a@b.rw'')\<lparr>otp_verified := True\<rparr>
           \<in> set (otps (snd (verifyOTPCode cfg_ex db_sent 2000 '' A@B.rw '' ''123456'')))"
    using verifyOTPCode_consumes_after_user_checks [OF fp, of cfg_ex] up st by auto
  show ?thesis
    using a b p by blast
qed

theorem verifyOTPCode_inactive_counterexample:
  "otpMatches ''bob@b.rw'' ''123456'' 2000 (otp_ex ''bob@b.rw'')
   \<and> otps db_sent = [otp_ex ''a@b.rw'', otp_ex ''bob@b.rw'']
   \<and> fst (verifyOTPCode cfg_ex db_sent 2000 ''bob@b.rw'' ''123456'') = failure ''Account is inactive''
   \<and> otps (snd (verifyOTPCode cfg_ex db_sent 2000 ''bob@b.rw'' ''123456''))
       = [otp_ex ''a@b.rw'', otp_ex ''bob@b.rw'']
   \<and> \<not> otp_verified (otp_ex ''bob@b.rw'')"
  by (simp add: verifyOTPCode_def db_sent_def alice_def bob_def findUserByEmail_def
      findOne_def toLowerCase_ex normalizeEmail_ex otpMatches_def otp_ex_def Let_def)

section \<open>Invariants of the blacklist\<close>

lemma logout_accepts:
  assumes "expiryOf t = Some e" and "e \<noteq> 0" and "validDate (e * 1000)"
  shows "logout d now t =
     (\<lparr>ok = True, msg = ''Logout successful''\<rparr>,
      if list_ex (\<lambda>b. bl_token b = t) (blacklist d) then d
      else d\<lparr>blacklist := blacklist d @
             [\<lparr>bl_token = t, bl_expiresAt = e * 1000, bl_createdAt = now\<rparr>]\<rparr>)"
  using assms by (auto simp: logout_def expiryOf_def Let_def split: option.splits)

lemma logout_ok_expiry:
  assumes "ok (fst (logout d now t))"
  shows "\<exists>e. expiryOf t = Some e \<and> e \<noteq> 0 \<and> validDate (e * 1000)"
  using assms by (auto simp: logout_def expiryOf_def Let_def split: option.splits if_splits)

lemma logout_listed:
  assumes "ok (fst (logout d now t))"
  shows "list_ex (\<lambda>b. bl_token b = t) (blacklist (snd (logout d now t)))"
proof -
  obtain e where "expiryOf t = Some e" "e \<noteq> 0" "validDate (e * 1000)"
    using logout_ok_expiry [OF assms] by blast
  then show ?thesis by (simp add: logout_accepts)
qed

lemma uniqueTokens_logout:
  "uniqueTokens (blacklist d) \<Longrightarrow> uniqueTokens (blacklist (snd (logout d now t)))"
  by (auto simp: logout_def uniqueTokens_def Let_def list_ex_iff split: option.splits)

lemma blacklistConsistent_logout:
  "blacklistConsistent (blacklist d) \<Longrightarrow> blacklistConsistent (blacklist (snd (logout d now t)))"
  by (auto simp: logout_def blacklistConsistent_def expiryOf_def Let_def split: option.splits)

lemma blacklist_sendOTPCode: "blacklist (snd (sendOTPCode d now rnd email)) = blacklist d"
  by (simp add: sendOTPCode_def Let_def split: option.splits)

lemma blacklist_verifyOTPCode: "blacklist (snd (verifyOTPCode cfg d now email code)) = blacklist d"
  by (simp add: verifyOTPCode_def Let_def split: option.splits)

lemma uniqueTokens_deleteMany: "uniqueTokens bs \<Longrightarrow> uniqueTokens (deleteMany P bs)"
  unfolding uniqueTokens_def deleteMany_def by (rule distinct_map_filter)

lemma blacklistConsistent_deleteMany:
  "blacklistConsistent bs \<Longrightarrow> blacklistConsistent (deleteMany P bs)"
  unfolding blacklistConsistent_def by (rule list_all_deleteMany)

lemma uniqueTokens_step: "uniqueTokens (blacklist d) \<Longrightarrow> uniqueTokens (blacklist (step cfg d ev))"
  by (cases ev)
    (simp_all add: blacklist_sendOTPCode blacklist_verifyOTPCode uniqueTokens_logout
      cleanExpiredTokens_def ttlPurge_def uniqueTokens_deleteMany)

lemma blacklistConsistent_step:
  "blacklistConsistent (blacklist d) \<Longrightarrow> blacklistConsistent (blacklist (step cfg d ev))"
  by (cases ev)
    (simp_all add: blacklist_sendOTPCode blacklist_verifyOTPCode blacklistConsistent_logout
      cleanExpiredTokens_def ttlPurge_def blacklistConsistent_deleteMany)

lemma uniqueTokens_run:
  "uniqueTokens (blacklist d) \<Longrightarrow> uniqueTokens (blacklist (run cfg d evs))"
  unfolding run_def by (induction evs arbitrary: d) (simp_all add: uniqueTokens_step)

lemma blacklistConsistent_run:
  "blacklistConsistent (blacklist d) \<Longrightarrow> blacklistConsistent (blacklist (run cfg d evs))"
  unfolding run_def by (induction evs arbitrary: d) (simp_all add: blacklistConsistent_step)

text \<open>Every database that a history produces from an empty blacklist respects the unique
  index and holds consistent entries.\<close>

lemma blacklist_reachable:
  assumes "blacklist d0 = []"
  shows "uniqueTokens (blacklist (run cfg d0 evs))"
    and "blacklistConsistent (blacklist (run cfg d0 evs))"
proof -
  have "uniqueTokens (blacklist d0)" "blacklistConsistent (blacklist d0)"
    using assms by (simp_all add: uniqueTokens_def blacklistConsistent_def)
  then show "uniqueTokens (blacklist (run cfg d0 evs))"
    and "blacklistConsistent (blacklist (run cfg d0 evs))"
    by (simp_all add: uniqueTokens_run blacklistConsistent_run)
qed

section \<open>Logging out twice\<close>







section \<open>Rejection of revoked tokens\<close>

lemma liveEntry_logout:
  assumes "blacklistConsistent (blacklist d)" and "ok (fst (logout d n0 t))"
    and "expiryOf t = Some e"
  shows "liveEntry t e (blacklist (snd (logout d n0 t)))"
proof -
  let ?bs = "blacklist (snd (logout d n0 t))"
  obtain b where b: "b \<in> set ?bs" "bl_token b = t"
    using logout_listed [OF assms(2)] by (auto simp: list_ex_iff)
  have "blacklistConsistent ?bs"
    using assms(1) by (rule blacklistConsistent_logout)
  with b assms(3) have "bl_expiresAt b = e * 1000"
    by (auto simp: blacklistConsistent_def list_all_iff)
  with b show ?thesis
    by (auto simp: liveEntry_def list_ex_iff)
qed

lemma liveEntry_deleteMany:
  assumes "liveEntry t e bs" and "n < e * 1000"
  shows "liveEntry t e (deleteMany (\<lambda>b. bl_expiresAt b \<le> n) bs)"
  using assms by (auto simp: liveEntry_def deleteMany_def list_ex_iff)

lemma liveEntry_step:
  assumes "liveEntry t e (blacklist d)" and "happensBy now ev" and "now < e * 1000"
  shows "liveEntry t e (blacklist (step cfg d ev))"
proof (cases ev)
  case (SendOTP n rnd email)
  with assms(1) show ?thesis by (simp add: blacklist_sendOTPCode)
next
  case (VerifyOTP n email code)
  with assms(1) show ?thesis by (simp add: blacklist_verifyOTPCode)
next
  case (Logout n t')
  have "set (blacklist d) \<subseteq> set (blacklist (snd (logout d n t')))"
    by (auto simp: logout_def Let_def split: option.splits)
  with assms(1) Logout show ?thesis
    by (auto simp: liveEntry_def list_ex_iff)
next
  case (CleanExpiredTokens n)
  with assms have "n < e * 1000" by simp
  with assms(1) CleanExpiredTokens show ?thesis
    by (simp add: cleanExpiredTokens_def liveEntry_deleteMany)
next
  case (TTLPurge n)
  with assms have "n < e * 1000" by simp
  with assms(1) TTLPurge show ?thesis
    by (simp add: ttlPurge_def liveEntry_deleteMany)
next
  case (UsersChanged us)
  with assms(1) show ?thesis by simp
qed

lemma liveEntry_run:
  assumes "liveEntry t e (blacklist d)" and "list_all (happensBy now) evs" and "now < e * 1000"
  shows "liveEntry t e (blacklist (run cfg d evs))"
  using assms(1,2) unfolding run_def
proof (induction evs arbitrary: d)
  case Nil
  then show ?case by simp
next
  case (Cons ev evs)
  from Cons.prems have "liveEntry t e (blacklist (step cfg d ev))"
    using assms(3) liveEntry_step [of t e d now ev cfg] by simp
  with Cons show ?case by simp
qed

lemma liveEntry_blacklisted:
  "liveEntry t e (blacklist d) \<Longrightarrow> now < e * 1000 \<Longrightarrow> isTokenBlacklisted d now t"
  by (auto simp: liveEntry_def isTokenBlacklisted_def findOne_None_iff list_ex_iff)

text \<open>
  Claim C6. In a database that a history has produced from an empty blacklist, after a
  successful \<^verbatim>\<open>logout\<close> of a token and whatever has happened since, for as long as the
  token's \<^verbatim>\<open>exp\<close> lies in the future \<^verbatim>\<open>authenticate\<close> answers 401
  \<^verbatim>\<open>Token has been revoked\<close>. The blacklist is read before the token is verified, so the
  answer is the same whether or not the signature and the expiry would verify.
\<close>

theorem authenticate_rejects_revoked:
  assumes "blacklist d0 = []"
    and "logout (run cfg d0 pre) n0 t = (r, d')" and "ok r"
    and "expiryOf t = Some e" and "now < e * 1000"
    and "list_all (happensBy now) evs"
  shows "authenticate cfg (run cfg d' evs) now (Some (Bearer t))
           = Rejected 401 ''Token has been revoked''"
proof -
  have "blacklistConsistent (blacklist (run cfg d0 pre))"
    using assms(1) by (rule blacklist_reachable)
  moreover have "ok (fst (logout (run cfg d0 pre) n0 t))"
    and d': "d' = snd (logout (run cfg d0 pre) n0 t)"
    using assms(2,3) by simp_all
  ultimately have "liveEntry t e (blacklist d')"
    using assms(4) by (simp add: liveEntry_logout)
  then have "liveEntry t e (blacklist (run cfg d' evs))"
    using assms(6,5) by (rule liveEntry_run)
  then have "isTokenBlacklisted (run cfg d' evs) now t"
    using assms(5) by (rule liveEntry_blacklisted)
  then show ?thesis by (simp add: authenticate_def)
qed

lemma generateAccessToken_alice: "generateAccessToken cfg_ex alice 1000 = tok_alice"
  by (simp add: generateAccessToken_def jwt_sign_def tok_alice_def claims_alice_def cfg_ex_def
      alice_def Let_def)

theorem authenticate_rejects_revoked_witness:
  "generateAccessToken cfg_ex alice 1000 = tok_alice
   \<and> blacklist db_ex = []
   \<and> expiryOf tok_alice = Some 86401 \<and> (2000::int) < 86401 * 1000
   \<and> verifyAccessToken cfg_ex tok_alice 2000 = Inr claims_alice
   \<and> authenticate cfg_ex db_ex 2000 (Some (Bearer tok_alice)) = Next alice
   \<and> ok (fst (logout db_ex 1500 tok_alice))
   \<and> list_all (happensBy 2000) [TTLPurge 1600, CleanExpiredTokens 1700]
   \<and> authenticate cfg_ex (snd (logout db_ex 1500 tok_alice)) 2000 (Some (Bearer tok_alice))
       = Rejected 401 ''Token has been revoked''
   \<and> authenticate cfg_ex
        (run cfg_ex (snd (logout db_ex 1500 tok_alice)) [TTLPurge 1600, CleanExpiredTokens 1700])
        2000 (Some (Bearer tok_alice))
       = Rejected 401 ''Token has been revoked''"
proof -
  have c: "blacklist db_ex = []"
    by (simp add: db_ex_def)
  have e: "expiryOf tok_alice = Some 86401"
    by (simp add: expiryOf_def tok_alice_def claims_alice_def)
  have lt: "(2000::int) < 86401 * 1000" by simp
  have v: "verifyAccessToken cfg_ex tok_alice 2000 = Inr claims_alice"
    by (simp add: verifyAccessToken_def tok_alice_def claims_alice_def cfg_ex_def)
  have before: "authenticate cfg_ex db_ex 2000 (Some (Bearer tok_alice)) = Next alice"
    by (simp add: authenticate_def isTokenBlacklisted_def findOne_def db_ex_def v
        findById_def claims_alice_def alice_def)
  have lo: "logout (run cfg_ex db_ex []) 1500 tok_alice
       = (fst (logout db_ex 1500 tok_alice), snd (logout db_ex 1500 tok_alice))"
    by (simp add: run_def)
  have okl: "ok (fst (logout db_ex 1500 tok_alice))"
    by (simp add: logout_accepts [OF e] validDate_def)
  have h: "list_all (happensBy 2000) [TTLPurge 1600, CleanExpiredTokens 1700]" by simp
  have h0: "list_all (happensBy 2000) []" by simp
  show ?thesis
    using generateAccessToken_alice c e lt v before okl h
      authenticate_rejects_revoked [OF c lo okl e lt h]
      authenticate_rejects_revoked [OF c lo okl e lt h0]
    by (simp add: run_def)
qed

section \<open>Invariants of the code store\<close>

lemma filter_updateFirst_subset:
  "(\<And>x. \<not> U (f x)) \<Longrightarrow> set (filter U (updateFirst P f xs)) \<subseteq> set (filter U xs)"
  by (induction xs) auto

lemma distinct_updateFirst:
  assumes "\<And>x. \<not> U (f x)" and "distinct (map g (filter U xs))"
  shows "distinct (map g (filter U (updateFirst P f xs)))"
  using assms(2)
proof (induction xs)
  case Nil
  then show ?case by simp
next
  case (Cons a xs)
  show ?case
  proof (cases "P a")
    case True
    with Cons.prems assms(1) show ?thesis by (simp split: if_splits)
  next
    case False
    have sub: "g ` set (filter U (updateFirst P f xs)) \<subseteq> g ` set (filter U xs)"
      using filter_updateFirst_subset [of U f P xs] assms(1) by blast
    show ?thesis
    proof (cases "U a")
      case True
      with Cons.prems have "g a \<notin> g ` set (filter U xs)" "distinct (map g (filter U xs))"
        by simp_all
      with sub Cons.IH False True show ?thesis by auto
    next
      case no: False
      with Cons False show ?thesis by simp
    qed
  qed
qed

lemma singleActive_deleteMany: "singleActive os \<Longrightarrow> singleActive (deleteMany P os)"
proof -
  assume "singleActive os"
  then have "distinct (map otp_email (filter (\<lambda>c. \<not> P c) (filter (\<lambda>c. \<not> otp_verified c) os)))"
    unfolding singleActive_def by (rule distinct_map_filter)
  then show ?thesis
    by (simp add: singleActive_def deleteMany_def conj_commute)
qed

lemma singleActive_mark:
  "singleActive os \<Longrightarrow> singleActive (updateFirst P (\<lambda>c. c\<lparr>otp_verified := True\<rparr>) os)"
  unfolding singleActive_def
  by (rule distinct_updateFirst) simp_all

lemma singleActive_issue:
  assumes "singleActive os" and "otp_email c = normalizeEmail email"
  shows "singleActive (deleteMany (unverifiedFor email) os @ [c])"
proof -
  have "singleActive (deleteMany (unverifiedFor email) os)"
    using assms(1) by (rule singleActive_deleteMany)
  moreover have "\<forall>x\<in>set (deleteMany (unverifiedFor email) os).
                   \<not> otp_verified x \<longrightarrow> otp_email x \<noteq> otp_email c"
    by (auto simp: deleteMany_def unverifiedFor_def assms(2))
  ultimately show ?thesis
    by (auto simp: singleActive_def)
qed

lemma singleActive_sendOTPCode:
  "singleActive (otps d) \<Longrightarrow> singleActive (otps (snd (sendOTPCode d now rnd email)))"
  by (auto simp: sendOTPCode_def Let_def singleActive_issue singleActive_deleteMany
      split: option.splits)

lemma singleActive_verifyOTPCode:
  "singleActive (otps d) \<Longrightarrow> singleActive (otps (snd (verifyOTPCode cfg d now email code)))"
  by (auto simp: verifyOTPCode_def Let_def singleActive_mark split: option.splits)

lemma otps_logout: "otps (snd (logout d now t)) = otps d"
  by (simp add: logout_def Let_def split: option.splits)

lemma singleActive_step: "singleActive (otps d) \<Longrightarrow> singleActive (otps (step cfg d ev))"
  by (cases ev)
    (simp_all add: singleActive_sendOTPCode singleActive_verifyOTPCode otps_logout
      cleanExpiredTokens_def ttlPurge_def singleActive_deleteMany)

lemma singleActive_run: "singleActive (otps d) \<Longrightarrow> singleActive (otps (run cfg d evs))"
  unfolding run_def by (induction evs arbitrary: d) (simp_all add: singleActive_step)

text \<open>Every database that a history produces from an empty code store has at most one
  unconsumed code per email.\<close>

lemma singleActive_reachable:
  assumes "otps d0 = []"
  shows "singleActive (otps (run cfg d0 evs))"
proof -
  have "singleActive (otps d0)"
    using assms by (simp add: singleActive_def)
  then show ?thesis by (rule singleActive_run)
qed

lemma distinct_map_count_le:
  "distinct (map f xs) \<Longrightarrow> length (filter (\<lambda>y. f y = k) xs) \<le> 1"
proof (induction xs)
  case Nil
  then show ?case by simp
next
  case (Cons a xs)
  show ?case
  proof (cases "f a = k")
    case True
    with Cons.prems have "k \<notin> f ` set xs" by simp
    then have "\<forall>y\<in>set xs. f y \<noteq> k" by (metis imageI)
    then have "filter (\<lambda>y. f y = k) xs = []" by (simp add: filter_empty_conv)
    with True show ?thesis by simp
  next
    case False
    with Cons show ?thesis by simp
  qed
qed

lemma length_filter_mono:
  "(\<And>x. P x \<Longrightarrow> Q x) \<Longrightarrow> length (filter P xs) \<le> length (filter Q xs)"
  by (induction xs) auto

lemma singleActive_unverified_le:
  assumes "singleActive os"
  shows "length (filter (unverifiedFor email) os) \<le> 1"
proof -
  have "length (filter (\<lambda>c. otp_email c = normalizeEmail email)
                 (filter (\<lambda>c. \<not> otp_verified c) os)) \<le> 1"
    using assms unfolding singleActive_def by (rule distinct_map_count_le)
  moreover have "unverifiedFor email
      = (\<lambda>c. \<not> otp_verified c \<and> otp_email c = normalizeEmail email)"
    by (auto simp: unverifiedFor_def fun_eq_iff)
  ultimately show ?thesis by simp
qed

text \<open>What a successful \<^verbatim>\<open>sendOTPCode\<close> leaves for the email: the one new code.\<close>

lemma sendOTPCode_replaces:
  assumes "sendOTPCode d now rnd email = (Inr r, d')" and "ok r"
  shows "filter (unverifiedFor email) (otps d') =
           [\<lparr>otp_email = normalizeEmail email, otp_code = generateCode rnd,
             otp_expiresAt = now + 5 * 60 * 1000, otp_verified = False, otp_createdAt = now\<rparr>]"
  using assms
  by (auto simp: sendOTPCode_def Let_def deleteMany_def unverifiedFor_def
      split: option.splits if_splits)

text \<open>
  Claim C4. Starting from an empty code store, after any history, and so after any
  sequence of \<^verbatim>\<open>sendOTPCode\<close> calls for an email, at most one unconsumed, unexpired code
  is stored for that email at any time \<open>t\<close>; and a successful \<^verbatim>\<open>sendOTPCode\<close>, in any
  database, leaves exactly the new code as the unconsumed code of the email, having
  deleted the earlier ones.
\<close>

theorem single_active_code:
  "(otps d = [] \<longrightarrow>
      length (filter (\<lambda>c. otp_email c = normalizeEmail email \<and> \<not> otp_verified c
                          \<and> otp_expiresAt c > t) (otps (run cfg d evs))) \<le> 1)
   \<and> (sendOTPCode d now rnd email = (Inr r, d') \<and> ok r \<longrightarrow>
        filter (unverifiedFor email) (otps d') =
          [\<lparr>otp_email = normalizeEmail email, otp_code = generateCode rnd,
            otp_expiresAt = now + 5 * 60 * 1000, otp_verified = False, otp_createdAt = now\<rparr>])"
proof -
  have "length (filter (\<lambda>c. otp_email c = normalizeEmail email \<and> \<not> otp_verified c
                          \<and> otp_expiresAt c > t) (otps (run cfg d evs))) \<le> 1"
    if "otps d = []"
  proof -
    have "singleActive (otps (run cfg d evs))"
      using that by (rule singleActive_reachable)
    then have "length (filter (unverifiedFor email) (otps (run cfg d evs))) \<le> 1"
      by (rule singleActive_unverified_le)
    moreover have "length (filter (\<lambda>c. otp_email c = normalizeEmail email \<and> \<not> otp_verified c
                          \<and> otp_expiresAt c > t) (otps (run cfg d evs)))
        \<le> length (filter (unverifiedFor email) (otps (run cfg d evs)))"
      by (rule length_filter_mono) (simp add: unverifiedFor_def)
    ultimately show ?thesis by simp
  qed
  then show ?thesis
    using sendOTPCode_replaces [of d now rnd email r d'] by blast
qed

lemma validateOTP_ex:
  "validateOTP \<lparr>otp_email = ''a@b.rw'', otp_code = ''123456'', otp_expiresAt = e,
                otp_verified = False, otp_createdAt = n\<rparr> = validDate e"
  "validateOTP \<lparr>otp_email = ''a@b.rw'', otp_code = ''100000'', otp_expiresAt = e,
                otp_verified = False, otp_createdAt = n\<rparr> = validDate e"
  by (simp_all add: validateOTP_def isDigit_def)

text \<open>A padded, upper-case email is served like its normalized form.\<close>

lemma send_padded_ex:
  "sendOTPCode db_ex 1000 23456 '' A@B.rw ''
     = (Inr \<lparr>ok = True, msg = ''OTP code sent to your email address''\<rparr>, db_issued)"
  by (simp add: sendOTPCode_def db_ex_def db_issued_def alice_def bob_def findUserByEmail_def
      findOne_def toLowerCase_ex normalizeEmail_ex normalizeEmail_padded_ex generateCode_ex
      deleteMany_def otp_ex_def validateOTP_ex validDate_def Let_def)

lemma send_alice_ex:
  "sendOTPCode db_ex 1000 23456 ''a@b.rw''
     = (Inr \<lparr>ok = True, msg = ''OTP code sent to your email address''\<rparr>, db_issued)"
  by (simp add: sendOTPCode_def db_ex_def db_issued_def alice_def bob_def findUserByEmail_def
      findOne_def toLowerCase_ex normalizeEmail_ex generateCode_ex deleteMany_def otp_ex_def
      validateOTP_ex validDate_def Let_def)

lemma send_again_ex:
  "snd (sendOTPCode db_issued 2000 0 ''a@b.rw'')
     = db_ex\<lparr>otps := [\<lparr>otp_email = ''a@b.rw'', otp_code = ''100000'', otp_expiresAt = 302000,
                         otp_verified = False, otp_createdAt = 2000\<rparr>]\<rparr>"
  by (simp add: sendOTPCode_def db_ex_def db_issued_def alice_def bob_def findUserByEmail_def
      findOne_def toLowerCase_ex normalizeEmail_ex generateCode_ex deleteMany_def otp_ex_def
      validateOTP_ex validDate_def unverifiedFor_def Let_def)

theorem single_active_code_witness:
  "otps db_ex = []
   \<and> length (filter (\<lambda>c. otp_email c = normalizeEmail ''a@b.rw'' \<and> \<not> otp_verified c
                         \<and> otp_expiresAt c > 2500)
               (otps (run cfg_ex db_ex [SendOTP 1000 23456 '' A@B.rw '',
                                        SendOTP 2000 0 ''a@b.rw'']))) \<le> 1
   \<and> otps (run cfg_ex db_ex [SendOTP 1000 23456 '' A@B.rw '', SendOTP 2000 0 ''a@b.rw''])
       = [\<lparr>otp_email = ''a@b.rw'', otp_code = ''100000'', otp_expiresAt = 302000,
           otp_verified = False, otp_createdAt = 2000\<rparr>]
   \<and> sendOTPCode db_ex 1000 23456 '' A@B.rw ''
       = (Inr \<lparr>ok = True, msg = ''OTP code sent to your email address''\<rparr>, db_issued)
   \<and> filter (unverifiedFor '' A@B.rw '') (otps db_issued) = [otp_ex ''a@b.rw'']"
proof -
  let ?evs = "[SendOTP 1000 23456 '' A@B.rw '', SendOTP 2000 0 ''a@b.rw'']"
  have s: "otps db_ex = []"
    by (simp add: db_ex_def)
  have r: "otps (run cfg_ex db_ex ?evs)
       = [\<lparr>otp_email = ''a@b.rw'', otp_code = ''100000'', otp_expiresAt = 302000,
           otp_verified = False, otp_createdAt = 2000\<rparr>]"
    by (simp add: run_def send_padded_ex send_again_ex)
  have g: "\<lparr>otp_email = normalizeEmail '' A@B.rw '', otp_code = generateCode 23456,
             otp_expiresAt = 1000 + 5 * 60 * 1000, otp_verified = False, otp_createdAt = 1000\<rparr>
           = otp_ex ''a@b.rw''"
    by (simp add: otp_ex_def normalizeEmail_ex generateCode_ex)
  show ?thesis
    using s r g send_padded_ex
      single_active_code [of db_ex "''a@b.rw''" 2500 cfg_ex ?evs]
      single_active_code [of db_ex "'' A@B.rw ''" 2500 cfg_ex ?evs
        1000 23456 "\<lparr>ok = True, msg = ''OTP code sent to your email address''\<rparr>" db_issued]
    by simp
qed

section \<open>Codes that can no longer match\<close>

lemma expiredBy_step:
  assumes "expiredBy T email code (otps d)" and "\<not> reissues email code ev"
  shows "expiredBy T email code (otps (step cfg d ev))"
proof (cases ev)
  case (SendOTP now rnd e)
  with assms(2) have ne: "\<not> (normalizeEmail e = normalizeEmail email \<and> generateCode rnd = code)"
    by simp
  have del: "expiredBy T email code (deleteMany (unverifiedFor e) (otps d))"
    using assms(1) unfolding expiredBy_def by (rule list_all_deleteMany)
  show ?thesis
    using assms(1) del ne SendOTP
    by (auto simp: sendOTPCode_def Let_def expiredBy_def split: option.splits)
next
  case (VerifyOTP now e c)
  have "expiredBy T email code
          (updateFirst (otpMatches e c now) (\<lambda>c. c\<lparr>otp_verified := True\<rparr>) (otps d))"
    using assms(1) unfolding expiredBy_def by (rule list_all_updateFirst) simp
  with assms(1) VerifyOTP show ?thesis
    by (auto simp: verifyOTPCode_def Let_def split: option.splits)
next
  case (Logout now t)
  with assms(1) show ?thesis by (simp add: otps_logout)
next
  case (CleanExpiredTokens now)
  with assms(1) show ?thesis by (simp add: cleanExpiredTokens_def)
next
  case (TTLPurge now)
  have "expiredBy T email code (deleteMany (\<lambda>c. otp_expiresAt c \<le> now) (otps d))"
    using assms(1) unfolding expiredBy_def by (rule list_all_deleteMany)
  with TTLPurge show ?thesis by (simp add: ttlPurge_def)
next
  case (UsersChanged us)
  with assms(1) show ?thesis by simp
qed

lemma expiredBy_run:
  "expiredBy T email code (otps d) \<Longrightarrow> list_all (\<lambda>ev. \<not> reissues email code ev) evs \<Longrightarrow>
     expiredBy T email code (otps (run cfg d evs))"
  unfolding run_def by (induction evs arbitrary: d) (simp_all add: expiredBy_step)

lemma expiredBy_no_match:
  "expiredBy T email code os \<Longrightarrow> T \<le> now \<Longrightarrow> \<not> list_ex (otpMatches email code now) os"
  by (auto simp: expiredBy_def otpMatches_def list_all_iff list_ex_iff)

lemma expiredBy_rejected:
  assumes "expiredBy T email code (otps d)" and "T \<le> now"
  shows "verifyOTPCode cfg d now email code = (failure ''Invalid or expired OTP code'', d)"
  using expiredBy_no_match [OF assms] by (rule verifyOTPCode_no_match)

lemma no_unverified_expiredBy:
  "filter (unverifiedFor email) os = [] \<Longrightarrow> expiredBy T email code os"
  by (auto simp: expiredBy_def unverifiedFor_def filter_empty_conv list_all_iff)

lemma single_unverified_expiredBy:
  assumes "filter (unverifiedFor email) os = [c]" and "otp_expiresAt c \<le> T"
  shows "expiredBy T email code os"
proof -
  have "x = c" if "x \<in> set os" "unverifiedFor email x" for x
  proof -
    from that have "x \<in> set (filter (unverifiedFor email) os)" by simp
    with assms(1) show ?thesis by simp
  qed
  with assms(2) show ?thesis
    by (auto simp: expiredBy_def unverifiedFor_def list_all_iff)
qed

lemma updateFirst_clears:
  assumes "length (filter Q xs) \<le> 1" and "\<And>x. P x \<Longrightarrow> Q x" and "\<And>x. \<not> Q (f x)"
    and "list_ex P xs"
  shows "filter Q (updateFirst P f xs) = []"
  using assms(1,4)
proof (induction xs)
  case Nil
  then show ?case by simp
next
  case (Cons a xs)
  show ?case
  proof (cases "P a")
    case True
    then have "Q a" by (rule assms(2))
    with Cons.prems(1) have "filter Q xs = []" by simp
    with True assms(3) show ?thesis by simp
  next
    case False
    with Cons.prems(2) have ex: "list_ex P xs" by simp
    then obtain y where "y \<in> set xs" "Q y"
      using assms(2) by (auto simp: list_ex_iff)
    then have "filter Q xs \<noteq> []" by (auto simp: filter_empty_conv)
    then have "length (filter Q xs) \<ge> 1" by (cases "filter Q xs") simp_all
    with Cons.prems(1) have "\<not> Q a" "length (filter Q xs) \<le> 1"
      by (auto split: if_splits)
    with Cons.IH ex False show ?thesis by simp
  qed
qed

lemma verify_success_clears:
  assumes "singleActive (otps d)" and "verifyOTPCode cfg d now email code = (r, d')"
    and "success r"
  shows "filter (unverifiedFor email) (otps d') = []"
proof -
  obtain c where f: "findOne (otpMatches email code now) (otps d) = Some c"
    using assms(2,3)
    by (cases "findOne (otpMatches email code now) (otps d)")
       (auto simp: verifyOTPCode_def failure_def)
  have m: "list_ex (otpMatches email code now) (otps d)"
    using findOne_Some_holds [OF f] by (auto simp: list_ex_iff)
  have o: "otps d' = updateFirst (otpMatches email code now)
                        (\<lambda>c. c\<lparr>otp_verified := True\<rparr>) (otps d)"
    using assms(2,3) f
    by (auto simp: verifyOTPCode_def Let_def failure_def split: option.splits if_splits)
  have "filter (unverifiedFor email)
          (updateFirst (otpMatches email code now) (\<lambda>c. c\<lparr>otp_verified := True\<rparr>) (otps d)) = []"
  proof (rule updateFirst_clears)
    show "length (filter (unverifiedFor email) (otps d)) \<le> 1"
      using assms(1) by (rule singleActive_unverified_le)
    show "\<And>x. otpMatches email code now x \<Longrightarrow> unverifiedFor email x"
      by (simp add: otpMatches_def unverifiedFor_def)
    show "\<And>x. \<not> unverifiedFor email (x\<lparr>otp_verified := True\<rparr>)"
      by (simp add: unverifiedFor_def)
    show "list_ex (otpMatches email code now) (otps d)" by (rule m)
  qed
  with o show ?thesis by simp
qed

text \<open>
  Claim C3, amended. In a database that a history has produced from an empty code
  store, once \<^verbatim>\<open>verifyOTPCode\<close> has succeeded for an email and a code, every later call
  for the same email and code returns \<^verbatim>\<open>Invalid or expired OTP code\<close> and changes
  nothing, at any time and after any further history in which \<^verbatim>\<open>sendOTPCode\<close> does not
  issue the same digits to the email again. The consumed code is never matched again; a
  later \<^verbatim>\<open>sendOTPCode\<close> that draws the same digits stores a new code, which is accepted.
\<close>

theorem consumed_code_rejected:
  assumes "otps d0 = []"
    and "verifyOTPCode cfg (run cfg d0 pre) now email code = (r, d')" and "success r"
    and "list_all (\<lambda>ev. \<not> reissues email code ev) evs"
  shows "verifyOTPCode cfg (run cfg d' evs) now' email code
           = (failure ''Invalid or expired OTP code'', run cfg d' evs)"
proof -
  have "singleActive (otps (run cfg d0 pre))"
    using assms(1) by (rule singleActive_reachable)
  then have "filter (unverifiedFor email) (otps d') = []"
    using assms(2,3) by (rule verify_success_clears)
  then have "expiredBy now' email code (otps d')"
    by (rule no_unverified_expiredBy)
  then have "expiredBy now' email code (otps (run cfg d' evs))"
    using assms(4) by (rule expiredBy_run)
  then show ?thesis
    by (rule expiredBy_rejected) simp
qed

text \<open>
  Claim C5, amended. A code issued at \<open>issuedAt\<close> expires at \<open>issuedAt\<close> + 5 minutes; a
  call of \<^verbatim>\<open>verifyOTPCode\<close> with its email and digits at or after \<open>issuedAt\<close> + 5 minutes
  + 1 second returns \<^verbatim>\<open>Invalid or expired OTP code\<close>, although the code was never
  consumed, after any history in which \<^verbatim>\<open>sendOTPCode\<close> does not issue the same digits to
  the email again (a code issued later with the same digits has five minutes of its
  own).
\<close>

theorem expired_code_rejected:
  assumes "sendOTPCode d issuedAt rnd email = (Inr r, d')" and "ok r"
    and "list_all (\<lambda>ev. \<not> reissues email (generateCode rnd) ev) evs"
    and "issuedAt + 5 * 60 * 1000 + 1000 \<le> now"
  shows "verifyOTPCode cfg (run cfg d' evs) now email (generateCode rnd)
           = (failure ''Invalid or expired OTP code'', run cfg d' evs)"
proof -
  let ?c = "\<lparr>otp_email = normalizeEmail email, otp_code = generateCode rnd,
             otp_expiresAt = issuedAt + 5 * 60 * 1000, otp_verified = False,
             otp_createdAt = issuedAt\<rparr>"
  have "filter (unverifiedFor email) (otps d') = [?c]"
    using assms(1,2) by (rule sendOTPCode_replaces)
  then have "expiredBy (issuedAt + 5 * 60 * 1000) email (generateCode rnd) (otps d')"
    by (rule single_unverified_expiredBy) simp
  then have "expiredBy (issuedAt + 5 * 60 * 1000) email (generateCode rnd) (otps (run cfg d' evs))"
    using assms(3) by (rule expiredBy_run)
  moreover have "issuedAt + 5 * 60 * 1000 \<le> now"
    using assms(4) by simp
  ultimately show ?thesis
    by (rule expiredBy_rejected)
qed

lemma evs_ex_fresh: "list_all (\<lambda>ev. \<not> reissues ''a@b.rw'' ''123456'' ev) evs_ex"
  by (simp add: evs_ex_def normalizeEmail_ex generateCode_ex)

lemma evs_ex_fresh_padded:
  "list_all (\<lambda>ev. \<not> reissues '' A@B.rw '' ''123456'' ev) evs_ex"
  by (simp add: evs_ex_def normalizeEmail_ex generateCode_ex)

lemma run_issue_ex: "run cfg_ex db_ex [SendOTP 1000 23456 ''a@b.rw''] = db_issued"
  by (simp add: run_def send_alice_ex)

lemma verify_issued_ex:
  "verifyOTPCode cfg_ex db_issued 2000 ''a@b.rw'' ''123456'' =
     (\<lparr>success = True, token = Some (generateAccessToken cfg_ex alice_in 2000),
       user = Some alice_in, message = Some ''Login successful''\<rparr>, db_consumed)"
  by (simp add: verifyOTPCode_def db_issued_def db_consumed_def alice_def alice_in_def bob_def
      findUserByEmail_def findOne_def toLowerCase_ex normalizeEmail_ex otpMatches_def otp_ex_def
      Let_def)

lemma verify_issued_padded_ex:
  "verifyOTPCode cfg_ex db_issued 2000 '' A@B.rw '' ''123456'' =
     (\<lparr>success = True, token = Some (generateAccessToken cfg_ex alice_in 2000),
       user = Some alice_in, message = Some ''Login successful''\<rparr>, db_consumed)"
  by (simp add: verifyOTPCode_def db_issued_def db_consumed_def alice_def alice_in_def bob_def
      findUserByEmail_def findOne_def toLowerCase_ex normalizeEmail_ex normalizeEmail_padded_ex
      otpMatches_def otp_ex_def Let_def)

theorem consumed_code_rejected_witness:
  "otps db_ex = []
   \<and> run cfg_ex db_ex [SendOTP 1000 23456 ''a@b.rw''] = db_issued
   \<and> success (fst (verifyOTPCode cfg_ex db_issued 2000 ''a@b.rw'' ''123456''))
   \<and> snd (verifyOTPCode cfg_ex db_issued 2000 ''a@b.rw'' ''123456'') = db_consumed
   \<and> list_all (\<lambda>ev. \<not> reissues ''a@b.rw'' ''123456'' ev) evs_ex
   \<and> fst (verifyOTPCode cfg_ex db_consumed 2001 ''a@b.rw'' ''123456'')
       = failure ''Invalid or expired OTP code''
   \<and> fst (verifyOTPCode cfg_ex (run cfg_ex db_consumed evs_ex) 2500 ''a@b.rw'' ''123456'')
       = failure ''Invalid or expired OTP code''
   \<and> snd (verifyOTPCode cfg_ex db_issued 2000 '' A@B.rw '' ''123456'') = db_consumed
   \<and> fst (verifyOTPCode cfg_ex (run cfg_ex db_consumed evs_ex) 2500 '' A@B.rw '' ''123456'')
       = failure ''Invalid or expired OTP code''"
proof -
  have vp: "verifyOTPCode cfg_ex (run cfg_ex db_ex [SendOTP 1000 23456 ''a@b.rw'']) 2000
             '' A@B.rw '' ''123456''
           = (\<lparr>success = True, token = Some (generateAccessToken cfg_ex alice_in 2000),
               user = Some alice_in, message = Some ''Login successful''\<rparr>, db_consumed)"
    by (simp add: run_issue_ex verify_issued_padded_ex)
  have s: "otps db_ex = []"
    by (simp add: db_ex_def)
  have v: "verifyOTPCode cfg_ex (run cfg_ex db_ex [SendOTP 1000 23456 ''a@b.rw'']) 2000
             ''a@b.rw'' ''123456''
           = (\<lparr>success = True, token = Some (generateAccessToken cfg_ex alice_in 2000),
               user = Some alice_in, message = Some ''Login successful''\<rparr>, db_consumed)"
    by (simp add: run_issue_ex verify_issued_ex)
  have ok: "success \<lparr>success = True, token = Some (generateAccessToken cfg_ex alice_in 2000),
               user = Some alice_in, message = Some ''Login successful''\<rparr>"
    by simp
  have none: "list_all (\<lambda>ev. \<not> reissues ''a@b.rw'' ''123456'' ev) []" by simp
  show ?thesis
    using s run_issue_ex evs_ex_fresh
      consumed_code_rejected [OF s v ok evs_ex_fresh, of 2500]
      consumed_code_rejected [OF s v ok none, of 2001]
      consumed_code_rejected [OF s vp ok evs_ex_fresh_padded, of 2500]
    by (simp add: run_def verify_issued_ex verify_issued_padded_ex)
qed

text \<open>The same digits issued again after the first code was consumed: the new code is
  accepted.\<close>

lemma reissue_consumed_ex:
  "snd (sendOTPCode db_consumed 3000 23456 ''a@b.rw'')
     = db_consumed\<lparr>otps := [(otp_ex ''a@b.rw'')\<lparr>otp_verified := True\<rparr>,
                             \<lparr>otp_email = ''a@b.rw'', otp_code = ''123456'',
                              otp_expiresAt = 303000, otp_verified = False,
                              otp_createdAt = 3000\<rparr>]\<rparr>"
  by (simp add: sendOTPCode_def db_consumed_def alice_def alice_in_def bob_def findUserByEmail_def
      findOne_def toLowerCase_ex normalizeEmail_ex generateCode_ex deleteMany_def otp_ex_def
      validateOTP_ex validDate_def unverifiedFor_def Let_def)

theorem consumed_code_reissued_counterexample:
  "run cfg_ex db_ex [SendOTP 1000 23456 ''a@b.rw''] = db_issued
   \<and> success (fst (verifyOTPCode cfg_ex db_issued 2000 ''a@b.rw'' ''123456''))
   \<and> snd (verifyOTPCode cfg_ex db_issued 2000 ''a@b.rw'' ''123456'') = db_consumed
   \<and> generateCode 23456 = ''123456''
   \<and> success (fst (verifyOTPCode cfg_ex (snd (sendOTPCode db_consumed 3000 23456 ''a@b.rw''))
                      4000 ''a@b.rw'' ''123456''))"
proof -
  have "success (fst (verifyOTPCode cfg_ex (snd (sendOTPCode db_consumed 3000 23456 ''a@b.rw''))
                      4000 ''a@b.rw'' ''123456''))"
    unfolding reissue_consumed_ex
    by (simp add: verifyOTPCode_def db_consumed_def alice_def alice_in_def
        bob_def findUserByEmail_def findOne_def toLowerCase_ex normalizeEmail_ex otpMatches_def
        otp_ex_def Let_def)
  then show ?thesis
    by (simp add: run_issue_ex verify_issued_ex generateCode_ex)
qed

theorem expired_code_rejected_witness:
  "sendOTPCode db_ex 1000 23456 ''a@b.rw''
     = (Inr \<lparr>ok = True, msg = ''OTP code sent to your email address''\<rparr>, db_issued)
   \<and> generateCode 23456 = ''123456''
   \<and> list_all (\<lambda>ev. \<not> reissues ''a@b.rw'' ''123456'' ev) evs_ex
   \<and> (1000::int) + 5 * 60 * 1000 + 1000 \<le> 302000
   \<and> success (fst (verifyOTPCode cfg_ex db_issued 300999 ''a@b.rw'' ''123456''))
   \<and> fst (verifyOTPCode cfg_ex db_issued 302000 ''a@b.rw'' ''123456'')
       = failure ''Invalid or expired OTP code''
   \<and> fst (verifyOTPCode cfg_ex (run cfg_ex db_issued evs_ex) 302000 ''a@b.rw'' ''123456'')
       = failure ''Invalid or expired OTP code''
   \<and> sendOTPCode db_ex 1000 23456 '' A@B.rw ''
       = (Inr \<lparr>ok = True, msg = ''OTP code sent to your email address''\<rparr>, db_issued)
   \<and> fst (verifyOTPCode cfg_ex (run cfg_ex db_issued evs_ex) 302000 '' A@B.rw '' ''123456'')
       = failure ''Invalid or expired OTP code''"
proof -
  have freshp: "list_all (\<lambda>ev. \<not> reissues '' A@B.rw '' (generateCode 23456) ev) evs_ex"
    using evs_ex_fresh_padded by (simp add: generateCode_ex)
  have okr: "ok \<lparr>ok = True, msg = ''OTP code sent to your email address''\<rparr>" by simp
  have fresh: "list_all (\<lambda>ev. \<not> reissues ''a@b.rw'' (generateCode 23456) ev) evs_ex"
    using evs_ex_fresh by (simp add: generateCode_ex)
  have none: "list_all (\<lambda>ev. \<not> reissues ''a@b.rw'' (generateCode 23456) ev) []" by simp
  have late: "(1000::int) + 5 * 60 * 1000 + 1000 \<le> 302000" by simp
  have early: "success (fst (verifyOTPCode cfg_ex db_issued 300999 ''a@b.rw'' ''123456''))"
    by (simp add: verifyOTPCode_def db_issued_def alice_def bob_def findUserByEmail_def
        findOne_def toLowerCase_ex normalizeEmail_ex otpMatches_def otp_ex_def Let_def)
  show ?thesis
    using send_alice_ex evs_ex_fresh late early
      expired_code_rejected [OF send_alice_ex okr fresh late, of cfg_ex]
      expired_code_rejected [OF send_alice_ex okr none late, of cfg_ex]
      expired_code_rejected [OF send_padded_ex okr freshp late, of cfg_ex] send_padded_ex
    by (simp add: generateCode_ex run_def)
qed

text \<open>The same digits issued again before the first code expired: the later code is
  accepted after the first one's five minutes.\<close>

lemma reissue_issued_ex:
  "snd (sendOTPCode db_issued 200000 23456 ''a@b.rw'')
     = db_issued\<lparr>otps := [\<lparr>otp_email = ''a@b.rw'', otp_code = ''123456'',
                            otp_expiresAt = 500000, otp_verified = False,
                            otp_createdAt = 200000\<rparr>]\<rparr>"
  by (simp add: sendOTPCode_def db_issued_def alice_def bob_def findUserByEmail_def
      findOne_def toLowerCase_ex normalizeEmail_ex generateCode_ex deleteMany_def otp_ex_def
      validateOTP_ex validDate_def unverifiedFor_def Let_def)

theorem expired_code_reissued_counterexample:
  "sendOTPCode db_ex 1000 23456 ''a@b.rw''
     = (Inr \<lparr>ok = True, msg = ''OTP code sent to your email address''\<rparr>, db_issued)
   \<and> generateCode 23456 = ''123456''
   \<and> (1000::int) + 5 * 60 * 1000 + 1000 \<le> 302000
   \<and> success (fst (verifyOTPCode cfg_ex (snd (sendOTPCode db_issued 200000 23456 ''a@b.rw''))
                      302000 ''a@b.rw'' ''123456''))"
proof -
  have "success (fst (verifyOTPCode cfg_ex (snd (sendOTPCode db_issued 200000 23456 ''a@b.rw''))
                      302000 ''a@b.rw'' ''123456''))"
    unfolding reissue_issued_ex
    by (simp add: verifyOTPCode_def db_issued_def alice_def bob_def
        findUserByEmail_def findOne_def toLowerCase_ex normalizeEmail_ex otpMatches_def
        otp_ex_def Let_def)
  then show ?thesis
    by (simp add: send_alice_ex generateCode_ex)
qed

end
